theory Spec2Isabelle
  imports Main "HOL-Library.Word"
begin

section \<open>The USP recognition engine adapter: data model\<close>

text \<open>
  The development embeds \<^verbatim>\<open>CSpxUspRecoEngineAdapter\<close>
  (\<^verbatim>\<open>source/core/sr/usp_reco_engine_adapter.cpp\<close>). Member functions become
  functions on a record of the adapter's members; everything the adapter touches outside
  itself (the blocks handed to \<^verbatim>\<open>::UspWriteAudio\<close>, the events delivered to the
  site, the dump file) is a field of the same record, so that it can be observed.
\<close>

type_synonym byte = "8 word"

text \<open>
  Modelled from the spec: the result codes and the macro \<^verbatim>\<open>SPX_FAILED\<close>, whose
  declarations (\<^verbatim>\<open>spxerror.h\<close>, \<^verbatim>\<open>usperror.h\<close>) are missing. The specification
  has an operation answer with success or failure; the code compares codes for equality
  and throws on failure. So the codes are a datatype of the success code, the four failure
  codes the adapter names, and any other failure code \<open>SPXERR_OTHER n\<close>.
\<close>

datatype SPXHR =
    SPX_NOERROR
  | SPXERR_UNINITIALIZED
  | SPXERR_ALREADY_INITIALIZED
  | SPXERR_UNEXPECTED_USP_SITE_FAILURE
  | USP_WRITE_AUDIO_ERROR
  | SPXERR_OTHER nat

definition SPX_FAILED :: "SPXHR \<Rightarrow> bool" where
  "SPX_FAILED hr = (hr \<noteq> SPX_NOERROR)"

type_synonym UspHandle = "64 word"

definition INVALID_USP_HANDLE :: UspHandle where
  "INVALID_USP_HANDLE = - 1"

datatype UspEndpointType =
    USP_ENDPOINT_UNKNOWN
  | USP_ENDPOINT_BING_SPEECH
  | USP_ENDPOINT_CRIS
  | USP_ENDPOINT_CDSDK

datatype UspRecognitionMode =
    USP_RECO_MODE_UNKNOWN
  | USP_RECO_MODE_INTERACTIVE
  | USP_RECO_MODE_CONVERSATION
  | USP_RECO_MODE_DICTATION

datatype UspAuthenticationType =
    USP_AUTHENTICATION_UNKNOWN
  | USP_AUTHENTICATION_SUBSCRIPTION_KEY
  | USP_AUTHENTICATION_AUTHORIZATION_TOKEN
  | USP_AUTHENTICATION_SEARCH_DELEGATION_RPS_TOKEN

text \<open>The calls on the transport other than \<^verbatim>\<open>UspWriteAudio\<close>.\<close>

datatype usp_call =
    UspInitByUrl string
  | UspInit UspEndpointType UspRecognitionMode
  | UspSetAuthentication UspAuthenticationType string
  | UspSetLanguage string
  | UspSetModelId string
  | UspConnect
  | UspClose UspHandle

text \<open>
  The inbound protocol messages, one constructor per callback of \<^verbatim>\<open>UspCallbacks\<close>,
  with the members that the adapter reads or traces: an offset; an offset, a duration and
  a text; a recognition status, an offset, a duration and a display text; a context
  service tag; an error code and a description.
\<close>

datatype UspMsg =
    UspMsgSpeechStartDetected nat
  | UspMsgSpeechEndDetected nat
  | UspMsgSpeechHypothesis nat nat string
  | UspMsgSpeechFragment nat nat string
  | UspMsgSpeechPhrase nat nat nat string
  | UspMsgTurnStart string
  | UspMsgTurnEnd
  | UspError nat string

text \<open>
  The calls the adapter makes on its site, one constructor per site method. A result
  object stands as the text it was made from, and a payload as the members of the message
  it was made from (the result factory and the payload helpers are external).
\<close>

datatype site_call =
    SpeechStartDetected nat
  | SpeechEndDetected nat
  | IntermediateRecoResult nat string
  | FinalRecoResult nat string
  | AdditionalMessage nat string
  | DoneProcessingAudio
  | Error nat string

text \<open>
  The adapter. Sizes of type \<^verbatim>\<open>size_t\<close> are natural numbers; the one subtraction on
  them, \<^verbatim>\<open>m_bytesInBuffer - m_bytesLeftInBuffer\<close>, never underflows in a state the
  adapter can reach (lemma \<open>UspWrite_Buffered_loop_inv\<close> below).
  \<^verbatim>\<open>m_buffer\<close> is \<open>None\<close> when null and otherwise the content of the allocated array;
  \<^verbatim>\<open>m_ptrIntoBuffer\<close> is the offset of the cursor from \<^verbatim>\<open>m_buffer.get()\<close> (0 when
  null). \<^verbatim>\<open>m_hfile\<close> is the content written to the dump file, \<open>None\<close> when closed.
  \<open>usp_sent\<close> lists the blocks handed to \<^verbatim>\<open>::UspWriteAudio\<close>, \<open>usp_calls\<close> the
  other calls made on the transport and \<open>site_calls\<close> the calls made on the site, each
  oldest first.
\<close>

record adapter =
  m_handle :: UspHandle
  m_fUseBufferedImplementation :: bool
  m_servicePreferedMilliseconds :: nat
  m_servicePreferedBufferSize :: nat
  m_buffer :: "byte list option"
  m_bytesInBuffer :: nat
  m_ptrIntoBuffer :: nat
  m_bytesLeftInBuffer :: nat
  m_hfile :: "byte list option"
  usp_sent :: "byte list list"
  usp_calls :: "usp_call list"
  site_calls :: "site_call list"

text \<open>
  A member function either returns, leaving the adapter in a new state (\<open>Inr s\<close>), or
  throws a result code, leaving the adapter in the state reached at the throw
  (\<open>Inl (hr, s)\<close>).
\<close>

type_synonym result = "(SPXHR \<times> adapter) + adapter"

text \<open>
  The transport's \<^verbatim>\<open>::UspWriteAudio\<close> is external. It is a parameter: given the
  blocks handed over so far and the block handed over now, it answers a result code.
\<close>

type_synonym transport = "byte list list \<Rightarrow> byte list \<Rightarrow> SPXHR"

section \<open>Writing audio\<close>

text \<open>
  \<^verbatim>\<open>std::memcpy(dst + off, src, n)\<close> on the content \<open>dst\<close> of an array: the bytes at
  \<open>off ..< off + n\<close> are replaced by the first \<open>n\<close> bytes at \<open>src\<close>. The copy is
  defined in C++ when both ranges exist, that is for \<open>off + n \<le> length dst\<close> and
  \<open>n \<le> length src\<close>.
\<close>

definition memcpy :: "byte list \<Rightarrow> nat \<Rightarrow> byte list \<Rightarrow> nat \<Rightarrow> byte list" where
  "memcpy dst off src n = take off dst @ take n src @ drop (off + n) dst"

text \<open>
  Modelled from the spec: \<^verbatim>\<open>SpxAllocSharedUint8Buffer\<close>, whose definition is missing.
  The specification has the accumulation buffer allocated to the configured capacity, so
  the result is a fresh array of that many bytes. C++ leaves the content of a fresh array
  indeterminate; the model fills it with zeros. The adapter only ever reads what it has
  written.
\<close>

definition SpxAllocSharedUint8Buffer :: "nat \<Rightarrow> byte list" where
  "SpxAllocSharedUint8Buffer n = replicate n 0"

text \<open>\<^verbatim>\<open>m_buffer.get()\<close> as the bytes that can be read there: none when it is null.\<close>

definition buffer_get :: "adapter \<Rightarrow> byte list" where
  "buffer_get s = (case m_buffer s of None \<Rightarrow> [] | Some b \<Rightarrow> b)"

text \<open>
  The dump file. The code passes \<^verbatim>\<open>m_hfile\<close> to \<^verbatim>\<open>fwrite\<close> and \<^verbatim>\<open>fclose\<close>
  without a test; on a null file (before \<^verbatim>\<open>Init\<close>, after \<^verbatim>\<open>Term\<close>) that is
  undefined in C and the process stops. The model leaves such a file as it is: what is said
  below about a write or a close is about an adapter whose file is open, as it is between
  \<^verbatim>\<open>Init\<close> and \<^verbatim>\<open>Term\<close>.
\<close>

definition DumpFileWrite :: "byte list \<Rightarrow> nat \<Rightarrow> adapter \<Rightarrow> adapter" where
  "DumpFileWrite buffer bytesToWrite s =
     s\<lparr>m_hfile := map_option (\<lambda>f. f @ take bytesToWrite buffer) (m_hfile s)\<rparr>"

definition UspWrite_Actual :: "transport \<Rightarrow> byte list \<Rightarrow> nat \<Rightarrow> adapter \<Rightarrow> result" where
  "UspWrite_Actual UspWriteAudio buffer byteToWrite s =
     (let hr0 = UspWriteAudio (usp_sent s) (take byteToWrite buffer);
          s1 = s\<lparr>usp_sent := usp_sent s @ [take byteToWrite buffer]\<rparr>;
          hr = (if byteToWrite = 0 \<and> hr0 = USP_WRITE_AUDIO_ERROR then SPX_NOERROR else hr0);
          s2 = DumpFileWrite buffer byteToWrite s1
      in if SPX_FAILED hr then Inl (hr, s2) else Inr s2)"

text \<open>
  The \<^verbatim>\<open>for (;;)\<close> loop of \<^verbatim>\<open>UspWrite_Buffered\<close>. The source pointer
  \<^verbatim>\<open>buffer\<close> is a loop constant: the code passes it to \<^verbatim>\<open>memcpy\<close> in every round
  and never advances it. The loop need not end (with \<open>m_bytesLeftInBuffer = 0\<close> and
  \<open>m_bytesInBuffer = 0\<close> no round consumes input), so it is a partial function: \<open>None\<close>
  is the loop that runs forever.
\<close>

partial_function (option) UspWrite_Buffered_loop ::
  "transport \<Rightarrow> bool \<Rightarrow> byte list \<Rightarrow> nat \<Rightarrow> adapter \<Rightarrow> result option"
where
  "UspWrite_Buffered_loop UspWriteAudio flushBuffer buffer bytesToWrite s =
     (case (if flushBuffer \<or> (m_bytesInBuffer s > 0 \<and> m_bytesLeftInBuffer s = 0)
            then (case UspWrite_Actual UspWriteAudio (buffer_get s)
                         (m_bytesInBuffer s - m_bytesLeftInBuffer s) s of
                    Inl e \<Rightarrow> Inl e
                  | Inr s1 \<Rightarrow> Inr (s1\<lparr>m_bytesLeftInBuffer := m_bytesInBuffer s1,
                                     m_ptrIntoBuffer := 0\<rparr>))
            else Inr s) of
        Inl e \<Rightarrow> Some (Inl e)
      | Inr s1 \<Rightarrow>
          (let s2 = (if flushBuffer
                     then s1\<lparr>m_buffer := None, m_bytesInBuffer := 0,
                             m_ptrIntoBuffer := 0, m_bytesLeftInBuffer := 0\<rparr>
                     else s1)
           in if bytesToWrite = 0 then Some (Inr s2)
              else (let bytesThisLoop = min bytesToWrite (m_bytesLeftInBuffer s2);
                        s3 = s2\<lparr>m_buffer := map_option
                                   (\<lambda>b. memcpy b (m_ptrIntoBuffer s2) buffer bytesThisLoop)
                                   (m_buffer s2),
                                m_ptrIntoBuffer := m_ptrIntoBuffer s2 + bytesThisLoop,
                                m_bytesLeftInBuffer := m_bytesLeftInBuffer s2 - bytesThisLoop\<rparr>
                    in UspWrite_Buffered_loop UspWriteAudio flushBuffer buffer
                         (bytesToWrite - bytesThisLoop) s3)))"

definition UspWrite_Buffered ::
  "transport \<Rightarrow> byte list \<Rightarrow> nat \<Rightarrow> adapter \<Rightarrow> result option" where
  "UspWrite_Buffered UspWriteAudio buffer bytesToWrite s =
     (let flushBuffer = (bytesToWrite = 0);
          s0 = (if m_buffer s = None
                then s\<lparr>m_buffer := Some (SpxAllocSharedUint8Buffer (m_servicePreferedBufferSize s)),
                       m_bytesInBuffer := m_servicePreferedBufferSize s,
                       m_ptrIntoBuffer := 0,
                       m_bytesLeftInBuffer := m_servicePreferedBufferSize s\<rparr>
                else s)
      in UspWrite_Buffered_loop UspWriteAudio flushBuffer buffer bytesToWrite s0)"

definition UspWrite_Flush :: "transport \<Rightarrow> adapter \<Rightarrow> result option" where
  "UspWrite_Flush UspWriteAudio s = UspWrite_Buffered UspWriteAudio [] 0 s"

definition UspWrite :: "transport \<Rightarrow> byte list \<Rightarrow> nat \<Rightarrow> adapter \<Rightarrow> result option" where
  "UspWrite UspWriteAudio buffer byteToWrite s =
     (if \<not> m_fUseBufferedImplementation s \<or> m_servicePreferedBufferSize s = 0
      then Some (UspWrite_Actual UspWriteAudio buffer byteToWrite s)
      else UspWrite_Buffered UspWriteAudio buffer byteToWrite s)"

definition ProcessAudio :: "transport \<Rightarrow> byte list \<Rightarrow> nat \<Rightarrow> adapter \<Rightarrow> result option" where
  "ProcessAudio UspWriteAudio data n s = UspWrite UspWriteAudio data n s"

section \<open>The stream header\<close>

text \<open>
  Modelled from the spec: the format descriptor, since the declarations of
  \<^verbatim>\<open>WAVEFORMAT\<close> and \<^verbatim>\<open>WAVEFORMATEX\<close> are missing. The specification describes it
  as sample rate, block alignment, bit depth and opaque extra format bytes. The record
  holds the three members that the adapter reads by name and \<open>object_bytes\<close>, the bytes
  of memory at the descriptor's address (the structure and the \<^verbatim>\<open>cbSize\<close> extra bytes
  behind it), which is what the cast \<^verbatim>\<open>(uint8_t*)pformat\<close> reads.
  \<^verbatim>\<open>sizeof(WAVEFORMAT)\<close> is the parameter \<open>sizeof_WAVEFORMAT\<close> of the functions below.
\<close>

record WAVEFORMATEX =
  nSamplesPerSec :: "32 word"
  nBlockAlign :: "16 word"
  cbSize :: "16 word"
  object_bytes :: "byte list"

text \<open>
  The object representation of a \<^verbatim>\<open>uint32_t\<close>, which \<^verbatim>\<open>FormatBufferWriteNumber\<close>
  copies with \<^verbatim>\<open>memcpy\<close>: least significant byte first, as on the little-endian
  hosts the adapter is built for.
\<close>

definition uint32_bytes :: "32 word \<Rightarrow> byte list" where
  "uint32_bytes w = [ucast w, ucast (drop_bit 8 w), ucast (drop_bit 16 w), ucast (drop_bit 24 w)]"

definition chars :: "string \<Rightarrow> byte list" where
  "chars psz = map of_char psz"

text \<open>
  The three writers take and return the array being filled together with the offset of
  \<^verbatim>\<open>ptr\<close> in it.
\<close>

type_synonym cursor = "byte list \<times> nat"

definition FormatBufferWriteBytes :: "cursor \<Rightarrow> byte list \<Rightarrow> nat \<Rightarrow> cursor" where
  "FormatBufferWriteBytes p source bytes = (memcpy (fst p) (snd p) source bytes, snd p + bytes)"

definition FormatBufferWriteNumber :: "cursor \<Rightarrow> 32 word \<Rightarrow> cursor" where
  "FormatBufferWriteNumber p number = (memcpy (fst p) (snd p) (uint32_bytes number) 4, snd p + 4)"

definition FormatBufferWriteChars :: "cursor \<Rightarrow> string \<Rightarrow> nat \<Rightarrow> cursor" where
  "FormatBufferWriteChars p psz cch = (memcpy (fst p) (snd p) (chars psz) cch, snd p + cch)"

definition cbFormatChunk :: "nat \<Rightarrow> WAVEFORMATEX \<Rightarrow> 32 word" where
  "cbFormatChunk sizeof_WAVEFORMAT pformat = of_nat (sizeof_WAVEFORMAT + unat (cbSize pformat))"

text \<open>
  \<^verbatim>\<open>cbHeader\<close>: the sum is taken in 32-bit unsigned arithmetic (the summands are
  \<^verbatim>\<open>uint16_t\<close> and \<^verbatim>\<open>uint32_t\<close>) and then widened to \<^verbatim>\<open>size_t\<close>.
\<close>

definition cbHeader :: "nat \<Rightarrow> WAVEFORMATEX \<Rightarrow> nat" where
  "cbHeader sizeof_WAVEFORMAT pformat =
     unat (4 + 4 + 4 + 4 + 4 + cbFormatChunk sizeof_WAVEFORMAT pformat + 4 + 4)"

text \<open>
  The part of \<^verbatim>\<open>UspWriteFormat\<close> before the final \<^verbatim>\<open>UspWrite\<close>: the array of
  \<^verbatim>\<open>cbHeader\<close> bytes is allocated (\<^verbatim>\<open>new uint8_t[cbHeader]\<close>, zeros in the model)
  and the eight writers run in turn. The result is the array and the final offset of
  \<^verbatim>\<open>ptr\<close>, which the code asserts to be \<^verbatim>\<open>cbHeader\<close>.
\<close>

definition UspWriteFormat_buffer :: "nat \<Rightarrow> WAVEFORMATEX \<Rightarrow> cursor" where
  "UspWriteFormat_buffer sizeof_WAVEFORMAT pformat =
     (let cbTag = 4; cbChunkType = 4;
          cbRiffChunk = 0; cbDataChunk = 0;
          ptr = (replicate (cbHeader sizeof_WAVEFORMAT pformat) 0, 0);
          ptr = FormatBufferWriteChars ptr ''RIFF'' cbTag;
          ptr = FormatBufferWriteNumber ptr cbRiffChunk;
          ptr = FormatBufferWriteChars ptr ''WAVE'' cbChunkType;
          ptr = FormatBufferWriteChars ptr ''fmt '' cbChunkType;
          ptr = FormatBufferWriteNumber ptr (cbFormatChunk sizeof_WAVEFORMAT pformat);
          ptr = FormatBufferWriteBytes ptr (object_bytes pformat)
                  (unat (cbFormatChunk sizeof_WAVEFORMAT pformat));
          ptr = FormatBufferWriteChars ptr ''data'' cbChunkType;
          ptr = FormatBufferWriteNumber ptr cbDataChunk
      in ptr)"

definition UspWriteFormat ::
  "nat \<Rightarrow> transport \<Rightarrow> WAVEFORMATEX \<Rightarrow> adapter \<Rightarrow> result option" where
  "UspWriteFormat sizeof_WAVEFORMAT UspWriteAudio pformat s =
     UspWrite UspWriteAudio (fst (UspWriteFormat_buffer sizeof_WAVEFORMAT pformat))
       (cbHeader sizeof_WAVEFORMAT pformat) s"

definition IsUspHandleValid :: "UspHandle \<Rightarrow> bool" where
  "IsUspHandleValid handle = (handle \<noteq> INVALID_USP_HANDLE)"

text \<open>
  \<^verbatim>\<open>SetFormat\<close>; \<open>None\<close> is the null descriptor. The product that gives the preferred
  buffer size is taken in \<^verbatim>\<open>size_t\<close>, here 64 bits wide, with the wrap-around written
  out.
\<close>

definition SetFormat ::
  "nat \<Rightarrow> transport \<Rightarrow> WAVEFORMATEX option \<Rightarrow> adapter \<Rightarrow> result option" where
  "SetFormat sizeof_WAVEFORMAT UspWriteAudio pformat s =
     (if \<not> IsUspHandleValid (m_handle s) then Some (Inl (SPXERR_UNINITIALIZED, s))
      else case pformat of
        Some f \<Rightarrow>
          (case UspWriteFormat sizeof_WAVEFORMAT UspWriteAudio f s of
             None \<Rightarrow> None
           | Some (Inl e) \<Rightarrow> Some (Inl e)
           | Some (Inr s1) \<Rightarrow>
               Some (Inr (s1\<lparr>m_servicePreferedBufferSize :=
                 ((unat (nSamplesPerSec f) * unat (nBlockAlign f)) mod 2 ^ 64
                    * m_servicePreferedMilliseconds s1) mod 2 ^ 64 div 1000\<rparr>)))
      | None \<Rightarrow> UspWrite_Flush UspWriteAudio s)"

section \<open>Endpoint, recognition mode, credentials\<close>

text \<open>
  Modelled from the spec: the named-property service of the site
  (\<^verbatim>\<open>ISpxNamedProperties\<close>), whose implementation is missing. The specification has it
  as a read-only lookup from a key to a string; the adapter only calls
  \<^verbatim>\<open>GetStringValue(name)\<close>, which answers the value stored under exactly that name,
  or the empty string. Names and values are C strings (the public C API sets them through
  \<^verbatim>\<open>const wchar_t*\<close>), so \<^verbatim>\<open>c_str()\<close> and \<^verbatim>\<open>PAL::ToString\<close> are the identity
  on them.
\<close>

type_synonym named_properties = "string \<rightharpoonup> string"

definition GetStringValue :: "named_properties \<Rightarrow> string \<Rightarrow> string" where
  "GetStringValue properties name = (case properties name of None \<Rightarrow> [] | Some v \<Rightarrow> v)"

text \<open>
  Modelled from the spec: \<^verbatim>\<open>PAL::wcsicmp\<close>, whose definition is missing. The
  specification has the endpoint and the recognition mode compared case-insensitively;
  the adapter only tests the result against 0, so the model answers 0 when the two
  strings agree after their upper-case letters are made lower-case, and 1 otherwise.
\<close>

definition towlower :: "char \<Rightarrow> char" where
  "towlower c =
     (case map_of (zip ''ABCDEFGHIJKLMNOPQRSTUVWXYZ'' ''abcdefghijklmnopqrstuvwxyz'') c of
        None \<Rightarrow> c
      | Some l \<Rightarrow> l)"

definition wcsicmp :: "string \<Rightarrow> string \<Rightarrow> int" where
  "wcsicmp a b = (if map towlower a = map towlower b then 0 else 1)"

text \<open>
  Each getter queries the site for the property service first and throws
  \<open>SPXERR_UNEXPECTED_USP_SITE_FAILURE\<close> when there is none: the argument is \<open>None\<close>
  then. The debug assertions of the code are not modelled.
\<close>

definition GetUspEndpointType :: "named_properties option \<Rightarrow> SPXHR + UspEndpointType" where
  "GetUspEndpointType site =
     (case site of
        None \<Rightarrow> Inl SPXERR_UNEXPECTED_USP_SITE_FAILURE
      | Some properties \<Rightarrow>
          (let endpoint = GetStringValue properties ''SPEECH-Endpoint'';
               subscriptionKey = GetStringValue properties ''SPEECH-SubscriptionKey'';
               customSpeechModelId = GetStringValue properties ''CUSTOMSPEECH-modelId''
           in Inr (if customSpeechModelId \<noteq> [] then USP_ENDPOINT_CRIS
                   else if wcsicmp endpoint ''CORTANA'' = 0 then USP_ENDPOINT_CDSDK
                   else if endpoint \<noteq> [] then USP_ENDPOINT_UNKNOWN
                   else USP_ENDPOINT_BING_SPEECH)))"

definition GetUspCustomEndpoint :: "named_properties option \<Rightarrow> SPXHR + string" where
  "GetUspCustomEndpoint site =
     (case site of
        None \<Rightarrow> Inl SPXERR_UNEXPECTED_USP_SITE_FAILURE
      | Some properties \<Rightarrow> Inr (GetStringValue properties ''SPEECH-Endpoint''))"

definition GetUspRecoMode :: "named_properties option \<Rightarrow> SPXHR + UspRecognitionMode" where
  "GetUspRecoMode site =
     (case site of
        None \<Rightarrow> Inl SPXERR_UNEXPECTED_USP_SITE_FAILURE
      | Some properties \<Rightarrow>
          (let v = GetStringValue properties ''SPEECH-RecoMode''
           in Inr (if v = [] \<or> wcsicmp v ''INTERACTIVE'' = 0 then USP_RECO_MODE_INTERACTIVE
                   else if wcsicmp v ''CONVERSATION'' = 0 then USP_RECO_MODE_CONVERSATION
                   else if wcsicmp v ''DICTATION'' = 0 then USP_RECO_MODE_DICTATION
                   else USP_RECO_MODE_UNKNOWN)))"

definition GetUspLanguage :: "named_properties option \<Rightarrow> SPXHR + string" where
  "GetUspLanguage site =
     (case site of
        None \<Rightarrow> Inl SPXERR_UNEXPECTED_USP_SITE_FAILURE
      | Some properties \<Rightarrow> Inr (GetStringValue properties ''SPEECH-RecoLanguage''))"

definition GetUspModelId :: "named_properties option \<Rightarrow> SPXHR + string" where
  "GetUspModelId site =
     (case site of
        None \<Rightarrow> Inl SPXERR_UNEXPECTED_USP_SITE_FAILURE
      | Some properties \<Rightarrow> Inr (GetStringValue properties ''CUSTOMSPEECH-ModelId''))"

definition GetUspAuthenticationData ::
  "named_properties option \<Rightarrow> SPXHR + (UspAuthenticationType \<times> string)" where
  "GetUspAuthenticationData site =
     (case site of
        None \<Rightarrow> Inl SPXERR_UNEXPECTED_USP_SITE_FAILURE
      | Some properties \<Rightarrow>
          (let uspSubscriptionKey = GetStringValue properties ''SPEECH-SubscriptionKey'';
               uspAuthToken = GetStringValue properties ''SPEECH-AuthToken'';
               uspRpsToken = GetStringValue properties ''SPEECH-RpsToken''
           in Inr (if uspSubscriptionKey \<noteq> []
                     then (USP_AUTHENTICATION_SUBSCRIPTION_KEY, uspSubscriptionKey)
                   else if uspAuthToken \<noteq> []
                     then (USP_AUTHENTICATION_AUTHORIZATION_TOKEN, uspAuthToken)
                   else if uspRpsToken \<noteq> []
                     then (USP_AUTHENTICATION_SEARCH_DELEGATION_RPS_TOKEN, uspRpsToken)
                   else (USP_AUTHENTICATION_UNKNOWN, []))))"

section \<open>Construction, connecting and closing\<close>

text \<open>
  The constructor. \<^verbatim>\<open>m_fUseBufferedImplementation\<close> and
  \<^verbatim>\<open>m_servicePreferedMilliseconds\<close> get their values in the class declaration, which
  is not part of the sources at hand: they are the parameters of the constructor here.
\<close>

definition CSpxUspRecoEngineAdapter :: "bool \<Rightarrow> nat \<Rightarrow> adapter" where
  "CSpxUspRecoEngineAdapter fUseBufferedImplementation servicePreferedMilliseconds =
     \<lparr>m_handle = INVALID_USP_HANDLE,
      m_fUseBufferedImplementation = fUseBufferedImplementation,
      m_servicePreferedMilliseconds = servicePreferedMilliseconds,
      m_servicePreferedBufferSize = 0,
      m_buffer = None,
      m_bytesInBuffer = 0,
      m_ptrIntoBuffer = 0,
      m_bytesLeftInBuffer = 0,
      m_hfile = None,
      usp_sent = [],
      usp_calls = [],
      site_calls = []\<rparr>"

text \<open>
  The transport is external: \<open>usp\<close> answers each call with a result code. \<open>call\<close>
  makes one call under \<^verbatim>\<open>SPX_IFFAILED_THROW_HR\<close>: the call is recorded, and a failure
  code is thrown. \<open>query\<close> runs a getter, whose throw leaves the adapter as it is.
\<close>

type_synonym usp_api = "usp_call \<Rightarrow> SPXHR"

definition call :: "usp_api \<Rightarrow> usp_call \<Rightarrow> adapter \<Rightarrow> result" where
  "call usp c s =
     (let s1 = s\<lparr>usp_calls := usp_calls s @ [c]\<rparr>
      in if SPX_FAILED (usp c) then Inl (usp c, s1) else Inr s1)"

definition query :: "SPXHR + 'a \<Rightarrow> adapter \<Rightarrow> ('a \<Rightarrow> result) \<Rightarrow> result" where
  "query g s f = (case g of Inl e \<Rightarrow> Inl (e, s) | Inr x \<Rightarrow> f x)"

definition and_then :: "result \<Rightarrow> (adapter \<Rightarrow> result) \<Rightarrow> result" where
  "and_then r f = (case r of Inl e \<Rightarrow> Inl e | Inr s \<Rightarrow> f s)"

text \<open>
  \<^verbatim>\<open>UspInitialize\<close>, called with \<^verbatim>\<open>&m_handle\<close>: \<open>h\<close> is the handle that the
  transport stores there when \<^verbatim>\<open>::UspInit\<close> or \<^verbatim>\<open>::UspInitByUrl\<close> succeeds.
\<close>

definition UspInitialize ::
  "usp_api \<Rightarrow> UspHandle \<Rightarrow> named_properties option \<Rightarrow> adapter \<Rightarrow> result" where
  "UspInitialize usp h site s =
     query (GetUspEndpointType site) s (\<lambda>type.
     and_then
       (if type = USP_ENDPOINT_UNKNOWN
        then query (GetUspCustomEndpoint site) s (\<lambda>url. call usp (UspInitByUrl url) s)
        else query (GetUspRecoMode site) s (\<lambda>mode. call usp (UspInit type mode) s))
       (\<lambda>s0. let s1 = s0\<lparr>m_handle := h\<rparr> in
     query (GetUspAuthenticationData site) s1 (\<lambda>(authType, authData).
     and_then
       (if authType \<noteq> USP_AUTHENTICATION_UNKNOWN
        then call usp (UspSetAuthentication authType authData) s1
        else Inr s1)
       (\<lambda>s2.
     query (GetUspLanguage site) s2 (\<lambda>language.
     and_then
       (if language \<noteq> [] then call usp (UspSetLanguage language) s2 else Inr s2)
       (\<lambda>s3.
     query (GetUspModelId site) s3 (\<lambda>id.
     and_then
       (if id \<noteq> [] then call usp (UspSetModelId id) s3 else Inr s3)
       (\<lambda>s4. call usp UspConnect s4))))))))"

definition DumpFileInit :: "adapter \<Rightarrow> adapter" where
  "DumpFileInit s = s\<lparr>m_hfile := Some []\<rparr>"

definition DumpFileClose :: "adapter \<Rightarrow> adapter" where
  "DumpFileClose s = s\<lparr>m_hfile := None\<rparr>"

text \<open>
  \<^verbatim>\<open>Init\<close>. The site is \<open>None\<close> when \<^verbatim>\<open>GetSite()\<close> is null, and otherwise what the
  query for its property service gives.
\<close>

definition Init ::
  "usp_api \<Rightarrow> UspHandle \<Rightarrow> named_properties option option \<Rightarrow> adapter \<Rightarrow> result" where
  "Init usp h GetSite s =
     (case GetSite of
        None \<Rightarrow> Inl (SPXERR_UNINITIALIZED, s)
      | Some site \<Rightarrow>
          if IsUspHandleValid (m_handle s) then Inl (SPXERR_ALREADY_INITIALIZED, s)
          else and_then (UspInitialize usp h site s) (\<lambda>s1. Inr (DumpFileInit s1)))"

definition UspShutdown :: "usp_api \<Rightarrow> UspHandle \<Rightarrow> adapter \<Rightarrow> result" where
  "UspShutdown usp handle s = call usp (UspClose handle) s"

definition Term :: "usp_api \<Rightarrow> adapter \<Rightarrow> result" where
  "Term usp s =
     and_then (UspShutdown usp (m_handle s) s)
       (\<lambda>s1. Inr (DumpFileClose (s1\<lparr>m_handle := INVALID_USP_HANDLE\<rparr>)))"

section \<open>Dispatching inbound messages\<close>

text \<open>
  The handlers, each with the members of its message as arguments. Each makes one call
  on the site. The result factory turns the text of a message into a result object; the
  site call is recorded with that text. The handlers run with a site set (the code
  asserts it in debug builds), and none of them reads \<^verbatim>\<open>m_handle\<close>.
\<close>

definition to_site :: "site_call \<Rightarrow> adapter \<Rightarrow> adapter" where
  "to_site c s = s\<lparr>site_calls := site_calls s @ [c]\<rparr>"

definition UspOnSpeechStartDetected :: "nat \<Rightarrow> adapter \<Rightarrow> adapter" where
  "UspOnSpeechStartDetected offset s = to_site (SpeechStartDetected offset) s"

definition UspOnSpeechEndDetected :: "nat \<Rightarrow> adapter \<Rightarrow> adapter" where
  "UspOnSpeechEndDetected offset s = to_site (SpeechEndDetected offset) s"

definition UspOnSpeechHypothesis :: "nat \<Rightarrow> nat \<Rightarrow> string \<Rightarrow> adapter \<Rightarrow> adapter" where
  "UspOnSpeechHypothesis offset duration text s = to_site (IntermediateRecoResult offset text) s"

definition UspOnSpeechFragment :: "nat \<Rightarrow> nat \<Rightarrow> string \<Rightarrow> adapter \<Rightarrow> adapter" where
  "UspOnSpeechFragment offset duration text s = to_site (IntermediateRecoResult offset text) s"

definition UspOnSpeechPhrase :: "nat \<Rightarrow> nat \<Rightarrow> nat \<Rightarrow> string \<Rightarrow> adapter \<Rightarrow> adapter" where
  "UspOnSpeechPhrase recognitionStatus offset duration displayText s =
     to_site (FinalRecoResult offset displayText) s"

definition UspOnTurnStart :: "string \<Rightarrow> adapter \<Rightarrow> adapter" where
  "UspOnTurnStart contextServiceTag s = to_site (AdditionalMessage 0 contextServiceTag) s"

definition UspOnTurnEnd :: "adapter \<Rightarrow> adapter" where
  "UspOnTurnEnd s = to_site DoneProcessingAudio s"

definition UspOnError :: "nat \<Rightarrow> string \<Rightarrow> adapter \<Rightarrow> adapter" where
  "UspOnError errorCode description s = to_site (Error errorCode description) s"

text \<open>
  The callback table set up by \<^verbatim>\<open>InitCallbacks\<close>: the transport invokes the entry for
  the kind of the message, and the entry calls the handler on the adapter that
  \<^verbatim>\<open>From(handle, context)\<close> gives, which is the adapter registered as the context.
\<close>

fun callbacks :: "UspMsg \<Rightarrow> adapter \<Rightarrow> adapter" where
  "callbacks (UspMsgSpeechStartDetected offset) s = UspOnSpeechStartDetected offset s"
| "callbacks (UspMsgSpeechEndDetected offset) s = UspOnSpeechEndDetected offset s"
| "callbacks (UspMsgSpeechHypothesis offset duration text) s =
     UspOnSpeechHypothesis offset duration text s"
| "callbacks (UspMsgSpeechFragment offset duration text) s =
     UspOnSpeechFragment offset duration text s"
| "callbacks (UspMsgSpeechPhrase recognitionStatus offset duration displayText) s =
     UspOnSpeechPhrase recognitionStatus offset duration displayText s"
| "callbacks (UspMsgTurnStart contextServiceTag) s = UspOnTurnStart contextServiceTag s"
| "callbacks UspMsgTurnEnd s = UspOnTurnEnd s"
| "callbacks (UspError errorCode description) s = UspOnError errorCode description s"

text \<open>The transport delivering a sequence of messages, one after the other.\<close>

fun deliver :: "UspMsg list \<Rightarrow> adapter \<Rightarrow> adapter" where
  "deliver [] s = s"
| "deliver (m # ms) s = deliver ms (callbacks m s)"

section \<open>Notions used in the statements\<close>

text \<open>
  A transport that accepts every block, except that it may answer
  \<open>USP_WRITE_AUDIO_ERROR\<close> to an empty one (the behaviour that the comment in
  \<^verbatim>\<open>UspWrite_Actual\<close> reports).
\<close>

definition transport_ok :: "transport \<Rightarrow> bool" where
  "transport_ok UspWriteAudio =
     (\<forall>h b. UspWriteAudio h b = SPX_NOERROR
            \<or> (b = [] \<and> UspWriteAudio h b = USP_WRITE_AUDIO_ERROR))"

text \<open>The adapter after the block \<open>blk\<close> has been handed to the transport and dumped.\<close>

definition handed :: "byte list \<Rightarrow> adapter \<Rightarrow> adapter" where
  "handed blk s =
     s\<lparr>usp_sent := usp_sent s @ [blk], m_hfile := map_option (\<lambda>f. f @ blk) (m_hfile s)\<rparr>"

text \<open>The buffer is full: the condition under which the loop transmits without a flush.\<close>

definition full :: "adapter \<Rightarrow> bool" where
  "full s = (m_bytesInBuffer s > 0 \<and> m_bytesLeftInBuffer s = 0)"

text \<open>The adapter after one round of the loop has copied \<open>k\<close> bytes from \<open>buffer\<close>.\<close>

definition copied :: "byte list \<Rightarrow> nat \<Rightarrow> adapter \<Rightarrow> adapter" where
  "copied buffer k s =
     s\<lparr>m_buffer := map_option (\<lambda>b. memcpy b (m_ptrIntoBuffer s) buffer k) (m_buffer s),
       m_ptrIntoBuffer := m_ptrIntoBuffer s + k,
       m_bytesLeftInBuffer := m_bytesLeftInBuffer s - k\<rparr>"

text \<open>
  The remaining capacity does not exceed the capacity: the invariant under which the
  subtraction \<^verbatim>\<open>m_bytesInBuffer - m_bytesLeftInBuffer\<close> does not underflow. It holds
  after construction and is kept by the loop, also when the loop throws.
\<close>

definition left_le :: "adapter \<Rightarrow> bool" where
  "left_le s = (m_bytesLeftInBuffer s \<le> m_bytesInBuffer s)"

definition result_inv :: "result \<Rightarrow> bool" where
  "result_inv r = (case r of Inl (e, s) \<Rightarrow> left_le s | Inr s \<Rightarrow> left_le s)"

text \<open>Running one member function after another; a throw or a loop that never ends stops the run.\<close>

definition next_call :: "result option \<Rightarrow> (adapter \<Rightarrow> result option) \<Rightarrow> result option" where
  "next_call r f = (case r of None \<Rightarrow> None | Some (Inl e) \<Rightarrow> Some (Inl e) | Some (Inr s) \<Rightarrow> f s)"

text \<open>
  The routing table of the specification (section 4.4): the event that each kind of
  inbound message is to produce, written as the site call that delivers it.
\<close>

fun routing_table :: "UspMsg \<Rightarrow> site_call" where
  "routing_table (UspMsgSpeechStartDetected offset) = SpeechStartDetected offset"
| "routing_table (UspMsgSpeechEndDetected offset) = SpeechEndDetected offset"
| "routing_table (UspMsgSpeechHypothesis offset duration text) = IntermediateRecoResult offset text"
| "routing_table (UspMsgSpeechFragment offset duration text) = IntermediateRecoResult offset text"
| "routing_table (UspMsgSpeechPhrase status offset duration text) = FinalRecoResult offset text"
| "routing_table (UspMsgTurnStart tag) = AdditionalMessage 0 tag"
| "routing_table UspMsgTurnEnd = DoneProcessingAudio"
| "routing_table (UspError errorCode description) = Error errorCode description"

subsection \<open>Concrete transports, properties, formats and adapters\<close>

text \<open>The transport of the comment: it refuses the empty block and accepts every other.\<close>

definition usp_transport :: transport where
  "usp_transport h b = (if b = [] then USP_WRITE_AUDIO_ERROR else SPX_NOERROR)"

text \<open>A transport that answers every block with a failure code of its own.\<close>

definition usp_down :: transport where
  "usp_down h b = SPXERR_OTHER 1"

definition usp_ok :: usp_api where
  "usp_ok c = SPX_NOERROR"

definition props_modelId :: named_properties where
  "props_modelId = [''CUSTOMSPEECH-modelId'' \<mapsto> ''m1'']"

definition props_ModelId :: named_properties where
  "props_ModelId = [''CUSTOMSPEECH-ModelId'' \<mapsto> ''m1'']"

definition props_both :: named_properties where
  "props_both = [''CUSTOMSPEECH-modelId'' \<mapsto> ''m1'', ''SPEECH-Endpoint'' \<mapsto> ''CORTANA'']"

definition props_cortana :: named_properties where
  "props_cortana = [''SPEECH-Endpoint'' \<mapsto> ''Cortana'']"

definition props_url :: named_properties where
  "props_url = [''SPEECH-Endpoint'' \<mapsto> ''wss://example.org/speech'']"

text \<open>
  An adapter built with buffering on and a target of 100 milliseconds, after \<open>Init\<close> on a
  site without properties (lemma \<open>Init_connected\<close>).
\<close>

definition connected :: adapter where
  "connected =
     \<lparr>m_handle = 1,
      m_fUseBufferedImplementation = True,
      m_servicePreferedMilliseconds = 100,
      m_servicePreferedBufferSize = 0,
      m_buffer = None,
      m_bytesInBuffer = 0,
      m_ptrIntoBuffer = 0,
      m_bytesLeftInBuffer = 0,
      m_hfile = Some [],
      usp_sent = [],
      usp_calls = [UspInit USP_ENDPOINT_BING_SPEECH USP_RECO_MODE_INTERACTIVE, UspConnect],
      site_calls = []\<rparr>"

text \<open>
  Two PCM descriptors of 18 bytes, mono with 16 bits per sample: 16000 samples per second,
  and 20 samples per second (40 bytes per second, so that 100 milliseconds are 4 bytes).
\<close>

definition pcm16000 :: WAVEFORMATEX where
  "pcm16000 =
     \<lparr>nSamplesPerSec = 16000, nBlockAlign = 2, cbSize = 0,
      object_bytes = [1, 0, 1, 0, 128, 62, 0, 0, 0, 125, 0, 0, 2, 0, 16, 0, 0, 0]\<rparr>"

definition pcm20 :: WAVEFORMATEX where
  "pcm20 =
     \<lparr>nSamplesPerSec = 20, nBlockAlign = 2, cbSize = 0,
      object_bytes = [1, 0, 1, 0, 20, 0, 0, 0, 40, 0, 0, 0, 2, 0, 16, 0, 0, 0]\<rparr>"

text \<open>The headers that the layout of \<^verbatim>\<open>UspWriteFormat\<close> gives for the two descriptors.\<close>

definition header16000 :: "byte list" where
  "header16000 = chars ''RIFF'' @ [0, 0, 0, 0] @ chars ''WAVE'' @ chars ''fmt '' @ [16, 0, 0, 0]
     @ [1, 0, 1, 0, 128, 62, 0, 0, 0, 125, 0, 0, 2, 0, 16, 0] @ chars ''data'' @ [0, 0, 0, 0]"

definition header20 :: "byte list" where
  "header20 = chars ''RIFF'' @ [0, 0, 0, 0] @ chars ''WAVE'' @ chars ''fmt '' @ [16, 0, 0, 0]
     @ [1, 0, 1, 0, 20, 0, 0, 0, 40, 0, 0, 0, 2, 0, 16, 0] @ chars ''data'' @ [0, 0, 0, 0]"

text \<open>
  The connected adapter after \<^verbatim>\<open>SetFormat\<close> with each of the two descriptors and
  \<^verbatim>\<open>sizeof(WAVEFORMAT) = 16\<close> (lemmas \<open>SetFormat_pcm16000\<close> and \<open>SetFormat_pcm20\<close>).
\<close>

definition formatted16000 :: adapter where
  "formatted16000 = (handed header16000 connected)\<lparr>m_servicePreferedBufferSize := 3200\<rparr>"

definition formatted20 :: adapter where
  "formatted20 = (handed header20 connected)\<lparr>m_servicePreferedBufferSize := 4\<rparr>"

text \<open>The adapter \<open>formatted20\<close> after a write of the two bytes 1 and 2.\<close>

definition buffered20 :: adapter where
  "buffered20 =
     formatted20\<lparr>m_buffer := Some [1, 2, 0, 0], m_bytesInBuffer := 4, m_ptrIntoBuffer := 2,
       m_bytesLeftInBuffer := 2\<rparr>"

text \<open>
  A write of 5000 bytes whose first 3200 bytes are 1 and whose last 1800 bytes are 2, so
  that the two parts can be told apart in what is sent.
\<close>

definition data5000 :: "byte list" where
  "data5000 = replicate 3200 1 @ replicate 1800 2"

section \<open>Properties\<close>

subsection \<open>Auxiliary facts\<close>

lemma Init_connected:
  "Init usp_ok 1 (Some (Some Map.empty)) (CSpxUspRecoEngineAdapter True 100) = Inr connected"
  by (simp add: Init_def UspInitialize_def IsUspHandleValid_def INVALID_USP_HANDLE_def
      CSpxUspRecoEngineAdapter_def connected_def query_def and_then_def call_def usp_ok_def
      SPX_FAILED_def GetUspEndpointType_def GetUspRecoMode_def GetUspAuthenticationData_def
      GetUspLanguage_def GetUspModelId_def GetStringValue_def wcsicmp_def DumpFileInit_def)

lemma transport_ok_usp_transport: "transport_ok usp_transport"
  by (simp add: transport_ok_def usp_transport_def)

lemma UspWrite_Actual_nonempty:
  assumes "transport_ok wa" and "n = 0 \<or> b \<noteq> []"
  shows "UspWrite_Actual wa b n s = Inr (handed (take n b) s)"
proof -
  have "wa (usp_sent s) (take n b) = SPX_NOERROR
        \<or> (n = 0 \<and> wa (usp_sent s) (take n b) = USP_WRITE_AUDIO_ERROR)"
    using assms unfolding transport_ok_def
    by (metis take_eq_Nil)
  then show ?thesis
    by (auto simp: UspWrite_Actual_def handed_def DumpFileWrite_def SPX_FAILED_def Let_def)
qed

lemma UspWrite_Actual_ok:
  assumes "transport_ok wa" and "n \<le> length b"
  shows "UspWrite_Actual wa b n s = Inr (handed (take n b) s)"
  using assms by (intro UspWrite_Actual_nonempty) auto

text \<open>One round of the loop at a time.\<close>

lemma loop_return:
  "\<not> full s \<Longrightarrow> UspWrite_Buffered_loop wa False b 0 s = Some (Inr s)"
  by (subst UspWrite_Buffered_loop.simps) (auto simp: full_def)

lemma loop_copy:
  "\<not> full s \<Longrightarrow> 0 < n \<Longrightarrow>
   UspWrite_Buffered_loop wa False b n s =
   UspWrite_Buffered_loop wa False b (n - min n (m_bytesLeftInBuffer s))
     (copied b (min n (m_bytesLeftInBuffer s)) s)"
  by (subst UspWrite_Buffered_loop.simps) (auto simp: full_def copied_def Let_def)

lemma loop_send:
  assumes "transport_ok wa" "full s" "m_bytesInBuffer s \<le> length (buffer_get s)"
  shows "UspWrite_Buffered_loop wa False b n s =
         UspWrite_Buffered_loop wa False b n
           ((handed (take (m_bytesInBuffer s) (buffer_get s)) s)
              \<lparr>m_bytesLeftInBuffer := m_bytesInBuffer s, m_ptrIntoBuffer := 0\<rparr>)"
    (is "?L = UspWrite_Buffered_loop wa False b n ?s1")
proof -
  let ?X = "if n = 0 then Some (Inr ?s1)
            else UspWrite_Buffered_loop wa False b (n - min n (m_bytesLeftInBuffer ?s1))
                   (copied b (min n (m_bytesLeftInBuffer ?s1)) ?s1)"
  have a: "UspWrite_Actual wa (buffer_get s) (m_bytesInBuffer s - m_bytesLeftInBuffer s) s
           = Inr (handed (take (m_bytesInBuffer s) (buffer_get s)) s)"
    using assms UspWrite_Actual_ok[of wa "m_bytesInBuffer s" "buffer_get s" s]
    by (simp add: full_def)
  have L: "?L = ?X"
    using assms(2) a
    by (subst UspWrite_Buffered_loop.simps) (simp add: full_def copied_def Let_def handed_def)
  have nf: "\<not> full ?s1" using assms(2) by (simp add: full_def handed_def)
  have R: "UspWrite_Buffered_loop wa False b n ?s1 = ?X"
  proof (cases "n = 0")
    case True then show ?thesis using loop_return[OF nf] by simp
  next
    case False then show ?thesis using loop_copy[OF nf, of n wa b] by simp
  qed
  show ?thesis using L R by simp
qed

lemma loop_flush:
  assumes "transport_ok wa" "m_bytesInBuffer s - m_bytesLeftInBuffer s \<le> length (buffer_get s)"
  shows "UspWrite_Buffered_loop wa True b 0 s =
         Some (Inr ((handed (take (m_bytesInBuffer s - m_bytesLeftInBuffer s) (buffer_get s)) s)
           \<lparr>m_buffer := None, m_bytesInBuffer := 0, m_ptrIntoBuffer := 0, m_bytesLeftInBuffer := 0\<rparr>))"
  using UspWrite_Actual_ok[OF assms, of s]
  by (subst UspWrite_Buffered_loop.simps) (simp add: handed_def)

lemma UspWrite_Actual_left_le: "left_le s \<Longrightarrow> result_inv (UspWrite_Actual wa b n s)"
  by (simp add: UspWrite_Actual_def result_inv_def left_le_def DumpFileWrite_def Let_def)

lemma UspWrite_Buffered_loop_inv:
  "UspWrite_Buffered_loop wa fl b n s = Some r \<Longrightarrow> left_le s \<longrightarrow> result_inv r"
proof (induct wa fl b n s r
    rule: UspWrite_Buffered_loop.raw_induct[rotated, consumes 1, case_names 1])
  case (1 loop wa fl b n s r)
  show ?case
  proof
    assume inv: "left_le s"
    let ?a = "UspWrite_Actual wa (buffer_get s) (m_bytesInBuffer s - m_bytesLeftInBuffer s) s"
    have a: "result_inv ?a" by (rule UspWrite_Actual_left_le[OF inv])
    show "result_inv r"
    proof (cases "fl \<or> (m_bytesInBuffer s > 0 \<and> m_bytesLeftInBuffer s = 0)")
      case send: True
      show ?thesis
      proof (cases ?a)
        case (Inl e)
        then show ?thesis using 1(2) send a by (auto simp: result_inv_def)
      next
        case (Inr s1)
        let ?s1 = "s1\<lparr>m_bytesLeftInBuffer := m_bytesInBuffer s1, m_ptrIntoBuffer := 0\<rparr>"
        let ?s2 = "if fl then ?s1\<lparr>m_buffer := None, m_bytesInBuffer := 0,
                             m_ptrIntoBuffer := 0, m_bytesLeftInBuffer := 0\<rparr> else ?s1"
        have i2: "left_le ?s2" by (simp add: left_le_def)
        show ?thesis
        proof (cases "n = 0")
          case True
          then show ?thesis using 1(2) send Inr i2 by (auto simp: result_inv_def split: if_splits)
        next
          case False
          let ?k = "min n (m_bytesLeftInBuffer ?s2)"
          have "loop wa fl b (n - ?k) (copied b ?k ?s2) = Some r"
            using 1(2) send Inr False by (auto simp: Let_def copied_def split: if_splits)
          moreover have "left_le (copied b ?k ?s2)"
            using i2 by (simp add: left_le_def copied_def)
          ultimately show ?thesis using 1(1) by blast
        qed
      qed
    next
      case nosend: False
      show ?thesis
      proof (cases "n = 0")
        case True
        then show ?thesis using 1(2) nosend inv by (auto simp: result_inv_def)
      next
        case False
        let ?k = "min n (m_bytesLeftInBuffer s)"
        have "loop wa fl b (n - ?k) (copied b ?k s) = Some r"
          using 1(2) nosend False by (auto simp: Let_def copied_def)
        moreover have "left_le (copied b ?k s)"
          using inv by (simp add: left_le_def copied_def)
        ultimately show ?thesis using 1(1) by blast
      qed
    qed
  qed
qed

lemma take_drop_overwrite:
  assumes "k \<le> c"
  shows "take k xs @ drop k (take c xs) = take c xs"
proof -
  have "take k (take c xs) = take k xs" using assms by (simp add: min.absorb1)
  then show ?thesis by (metis append_take_drop_id)
qed

lemma write_capacity_loop:
  assumes ok: "transport_ok wa" and c: "0 < c" and len: "length data = c"
    and buf: "m_buffer s = Some b" "length b = c"
    and st: "m_bytesInBuffer s = c" "m_bytesLeftInBuffer s = c" "m_ptrIntoBuffer s = 0"
  shows "UspWrite_Buffered_loop wa False data c s =
         Some (Inr ((handed data s)\<lparr>m_buffer := Some data,
                      m_ptrIntoBuffer := 0, m_bytesLeftInBuffer := c\<rparr>))"
proof -
  let ?s1 = "copied data c s"
  have nf: "\<not> full s" using c st by (simp add: full_def)
  have s1: "?s1 = s\<lparr>m_buffer := Some data, m_ptrIntoBuffer := c, m_bytesLeftInBuffer := 0\<rparr>"
    using buf st len by (simp add: copied_def memcpy_def)
  have 1: "UspWrite_Buffered_loop wa False data c s = UspWrite_Buffered_loop wa False data 0 ?s1"
    using loop_copy[OF nf c, of wa data] st by simp
  have f1: "full ?s1" using c st by (simp add: s1 full_def)
  have g1: "buffer_get ?s1 = data" by (simp add: s1 buffer_get_def)
  have 2: "UspWrite_Buffered_loop wa False data 0 ?s1 =
           UspWrite_Buffered_loop wa False data 0
             ((handed data ?s1)\<lparr>m_bytesLeftInBuffer := c, m_ptrIntoBuffer := 0\<rparr>)"
    using loop_send[OF ok f1, of data 0] len st by (simp add: g1) (simp add: s1)
  have nf2: "\<not> full ((handed data ?s1)\<lparr>m_bytesLeftInBuffer := c, m_ptrIntoBuffer := 0\<rparr>)"
    using c by (simp add: full_def)
  show ?thesis
    unfolding 1 2 loop_return[OF nf2]
    using st by (simp add: s1 handed_def)
qed

lemma write_over_capacity_loop:
  assumes ok: "transport_ok wa" and c: "c < n" "n < 2 * c" and len: "length data = n"
    and buf: "m_buffer s = Some b" "length b = c"
    and st: "m_bytesInBuffer s = c" "m_bytesLeftInBuffer s = c" "m_ptrIntoBuffer s = 0"
  shows "UspWrite_Buffered_loop wa False data n s =
         Some (Inr ((handed (take c data) s)\<lparr>m_buffer := Some (take c data),
                      m_ptrIntoBuffer := n - c, m_bytesLeftInBuffer := c - (n - c)\<rparr>))"
proof -
  have c0: "0 < c" "0 < n" using c by auto
  let ?s1 = "copied data c s"
  have nf: "\<not> full s" using c0 st by (simp add: full_def)
  have s1: "?s1 = s\<lparr>m_buffer := Some (take c data), m_ptrIntoBuffer := c, m_bytesLeftInBuffer := 0\<rparr>"
    using buf st len c by (simp add: copied_def memcpy_def)
  have 1: "UspWrite_Buffered_loop wa False data n s = UspWrite_Buffered_loop wa False data (n - c) ?s1"
  proof -
    have m: "min n c = c" using c by auto
    show ?thesis using loop_copy[OF nf c0(2), of wa data] unfolding st m by simp
  qed
  have f1: "full ?s1" using c0 st by (simp add: s1 full_def)
  have g1: "buffer_get ?s1 = take c data" by (simp add: s1 buffer_get_def)
  let ?s2 = "(handed (take c data) ?s1)\<lparr>m_bytesLeftInBuffer := c, m_ptrIntoBuffer := 0\<rparr>"
  have 2: "UspWrite_Buffered_loop wa False data (n - c) ?s1 =
           UspWrite_Buffered_loop wa False data (n - c) ?s2"
    using loop_send[OF ok f1, of data "n - c"] len st c by (simp add: g1) (simp add: s1)
  have nf2: "\<not> full ?s2" using c0 by (simp add: full_def)
  have l2: "m_bytesLeftInBuffer ?s2 = c" by simp
  let ?s3 = "copied data (n - c) ?s2"
  have 3: "UspWrite_Buffered_loop wa False data (n - c) ?s2 =
           UspWrite_Buffered_loop wa False data 0 ?s3"
  proof -
    have m: "min (n - c) c = n - c" and p: "0 < n - c" using c by auto
    show ?thesis using loop_copy[OF nf2 p, of wa data] unfolding l2 m by simp
  qed
  have ov: "take (n - c) data @ drop (n - c) (take c data) = take c data"
    using c by (intro take_drop_overwrite) arith
  have s3: "?s3 = (handed (take c data) s)\<lparr>m_buffer := Some (take c data),
                      m_ptrIntoBuffer := n - c, m_bytesLeftInBuffer := c - (n - c)\<rparr>"
    unfolding s1 using st ov by (simp add: copied_def handed_def memcpy_def)
  have nf3: "\<not> full ?s3" using c0 c unfolding s3 by (simp add: full_def handed_def st)
  show ?thesis
    unfolding 1 2 3 loop_return[OF nf3] by (simp only: s3)
qed

lemma UspWrite_Flush_ok:
  assumes ok: "transport_ok wa" and buf: "m_buffer s = Some b"
    and inv: "m_bytesInBuffer s - m_bytesLeftInBuffer s \<le> length b"
  shows "UspWrite_Flush wa s =
         Some (Inr ((handed (take (m_bytesInBuffer s - m_bytesLeftInBuffer s) b) s)
           \<lparr>m_buffer := None, m_bytesInBuffer := 0, m_ptrIntoBuffer := 0,
             m_bytesLeftInBuffer := 0\<rparr>))"
proof -
  have g: "buffer_get s = b" using buf by (simp add: buffer_get_def)
  show ?thesis
    using loop_flush[OF ok, of s "[]"] inv buf
    by (simp add: UspWrite_Flush_def UspWrite_Buffered_def g)
qed

lemma UspWrite_unallocated_fits:
  assumes buffered: "m_fUseBufferedImplementation s" and none: "m_buffer s = None"
    and c: "m_servicePreferedBufferSize s = c" and n: "0 < n" "n < c" and len: "length data = n"
  shows "UspWrite wa data n s =
         Some (Inr (s\<lparr>m_buffer := Some (data @ replicate (c - n) 0), m_bytesInBuffer := c,
                      m_ptrIntoBuffer := n, m_bytesLeftInBuffer := c - n\<rparr>))"
proof -
  let ?s0 = "s\<lparr>m_buffer := Some (SpxAllocSharedUint8Buffer c), m_bytesInBuffer := c,
                m_ptrIntoBuffer := 0, m_bytesLeftInBuffer := c\<rparr>"
  have nf: "\<not> full ?s0" using n by (simp add: full_def)
  have m: "min n (m_bytesLeftInBuffer ?s0) = n" using n by simp
  let ?s1 = "copied data n ?s0"
  have s1: "?s1 = s\<lparr>m_buffer := Some (data @ replicate (c - n) 0), m_bytesInBuffer := c,
                      m_ptrIntoBuffer := n, m_bytesLeftInBuffer := c - n\<rparr>"
    using len by (simp add: copied_def memcpy_def SpxAllocSharedUint8Buffer_def)
  have nf1: "\<not> full ?s1" using n unfolding s1 by (simp add: full_def)
  have "UspWrite wa data n s = UspWrite_Buffered_loop wa False data n ?s0"
    using buffered none c n by (simp add: UspWrite_def UspWrite_Buffered_def)
  also have "\<dots> = UspWrite_Buffered_loop wa False data 0 ?s1"
    using loop_copy[OF nf n(1), of wa data] unfolding m by simp
  also have "\<dots> = Some (Inr ?s1)" by (rule loop_return[OF nf1])
  finally show ?thesis unfolding s1 .
qed

lemma UspWrite_unallocated_over:
  assumes ok: "transport_ok wa"
    and buffered: "m_fUseBufferedImplementation s" and none: "m_buffer s = None"
    and c: "m_servicePreferedBufferSize s = c" and n: "c < n" "n < 2 * c"
    and len: "length data = n"
  shows "UspWrite wa data n s =
         Some (Inr ((handed (take c data) s)\<lparr>m_buffer := Some (take c data),
                      m_bytesInBuffer := c, m_ptrIntoBuffer := n - c,
                      m_bytesLeftInBuffer := c - (n - c)\<rparr>))"
proof -
  let ?s0 = "s\<lparr>m_buffer := Some (SpxAllocSharedUint8Buffer c), m_bytesInBuffer := c,
                m_ptrIntoBuffer := 0, m_bytesLeftInBuffer := c\<rparr>"
  have "UspWrite wa data n s = UspWrite_Buffered_loop wa False data n ?s0"
    using buffered none c n by (simp add: UspWrite_def UspWrite_Buffered_def)
  also have "\<dots> = Some (Inr ((handed (take c data) ?s0)\<lparr>m_buffer := Some (take c data),
                      m_ptrIntoBuffer := n - c, m_bytesLeftInBuffer := c - (n - c)\<rparr>))"
    by (rule write_over_capacity_loop[OF ok n len, of _ "SpxAllocSharedUint8Buffer c"])
       (simp_all add: SpxAllocSharedUint8Buffer_def)
  finally show ?thesis by (simp add: handed_def)
qed

lemma UspWrite_zero_bytes_buffered:
  assumes ok: "transport_ok wa"
    and buffered: "m_fUseBufferedImplementation s" "m_servicePreferedBufferSize s \<noteq> 0"
    and buf: "m_buffer s = Some b"
    and inv: "m_bytesInBuffer s - m_bytesLeftInBuffer s \<le> length b"
  shows "UspWrite wa buffer 0 s =
         Some (Inr ((handed (take (m_bytesInBuffer s - m_bytesLeftInBuffer s) b) s)
           \<lparr>m_buffer := None, m_bytesInBuffer := 0, m_ptrIntoBuffer := 0,
             m_bytesLeftInBuffer := 0\<rparr>))"
proof -
  have g: "buffer_get s = b" using buf by (simp add: buffer_get_def)
  show ?thesis
    using loop_flush[OF ok, of s buffer] inv buf buffered
    by (simp add: UspWrite_def UspWrite_Buffered_def g)
qed

text \<open>The header.\<close>

lemma cbFormatChunk_unat:
  assumes "szWF + unat (cbSize f) + 28 < 2 ^ 32"
  shows "unat (cbFormatChunk szWF f) = szWF + unat (cbSize f)"
proof -
  have "szWF + unat (cbSize f) < 2 ^ LENGTH(32)" using assms by simp
  then show ?thesis unfolding cbFormatChunk_def unat_of_nat by (rule mod_less)
qed

lemma cbHeader_eq:
  assumes "szWF + unat (cbSize f) + 28 < 2 ^ 32"
  shows "cbHeader szWF f = 28 + (szWF + unat (cbSize f))"
proof -
  have "cbHeader szWF f = unat (28 + cbFormatChunk szWF f)"
    by (simp add: cbHeader_def)
  also have "\<dots> = (unat (28 :: 32 word) + unat (cbFormatChunk szWF f)) mod 2 ^ 32"
    by (simp add: unat_word_ariths(1))
  finally show ?thesis using assms by (simp add: cbFormatChunk_unat)
qed

lemma uint32_bytes_length: "length (uint32_bytes w) = 4"
  by (simp add: uint32_bytes_def)

lemma memcpy_append:
  assumes "length w = off" "n \<le> length src" "n \<le> k"
  shows "memcpy (w @ replicate k 0) off src n = (w @ take n src) @ replicate (k - n) 0"
  using assms by (simp add: memcpy_def)

lemma FormatBufferWriteChars_append:
  assumes "length w = off" "cch = length psz" "cch \<le> k"
  shows "FormatBufferWriteChars (w @ replicate k 0, off) psz cch =
         ((w @ chars psz) @ replicate (k - cch) 0, off + cch)"
  using assms by (simp add: FormatBufferWriteChars_def memcpy_append chars_def)

lemma FormatBufferWriteNumber_append:
  assumes "length w = off" "4 \<le> k"
  shows "FormatBufferWriteNumber (w @ replicate k 0, off) number =
         ((w @ uint32_bytes number) @ replicate (k - 4) 0, off + 4)"
  using assms by (simp add: FormatBufferWriteNumber_def memcpy_append uint32_bytes_length)

lemma FormatBufferWriteBytes_append:
  assumes "length w = off" "bytes \<le> length source" "bytes \<le> k"
  shows "FormatBufferWriteBytes (w @ replicate k 0, off) source bytes =
         ((w @ take bytes source) @ replicate (k - bytes) 0, off + bytes)"
  using assms by (simp add: FormatBufferWriteBytes_def memcpy_append)

lemma UspWriteFormat_buffer_eq:
  assumes mem: "szWF + unat (cbSize f) \<le> length (object_bytes f)"
    and small: "szWF + unat (cbSize f) + 28 < 2 ^ 32"
  shows "UspWriteFormat_buffer szWF f =
          (chars ''RIFF'' @ uint32_bytes 0 @ chars ''WAVE'' @ chars ''fmt ''
            @ uint32_bytes (of_nat (length (take (szWF + unat (cbSize f)) (object_bytes f))))
            @ take (szWF + unat (cbSize f)) (object_bytes f)
            @ chars ''data'' @ uint32_bytes 0,
           cbHeader szWF f)"
proof -
  let ?k = "szWF + unat (cbSize f)"
  let ?fmt = "take ?k (object_bytes f)"
  have len: "length ?fmt = ?k" using mem by simp
  have fc: "cbFormatChunk szWF f = of_nat ?k" by (simp add: cbFormatChunk_def)
  have fcu: "unat (cbFormatChunk szWF f) = ?k" by (rule cbFormatChunk_unat[OF small])
  have H: "cbHeader szWF f = 28 + ?k" by (rule cbHeader_eq[OF small])
  define p0 :: cursor where "p0 = (replicate (cbHeader szWF f) 0, 0)"
  define p1 where "p1 = FormatBufferWriteChars p0 ''RIFF'' 4"
  define p2 where "p2 = FormatBufferWriteNumber p1 0"
  define p3 where "p3 = FormatBufferWriteChars p2 ''WAVE'' 4"
  define p4 where "p4 = FormatBufferWriteChars p3 ''fmt '' 4"
  define p5 where "p5 = FormatBufferWriteNumber p4 (cbFormatChunk szWF f)"
  define p6 where "p6 = FormatBufferWriteBytes p5 (object_bytes f) (unat (cbFormatChunk szWF f))"
  define p7 where "p7 = FormatBufferWriteChars p6 ''data'' 4"
  define p8 where "p8 = FormatBufferWriteNumber p7 0"
  have 0: "p0 = ([] @ replicate (28 + ?k) 0, 0)"
    by (simp add: p0_def H)
  have 1: "p1 = (chars ''RIFF'' @ replicate (24 + ?k) 0, 4)"
    unfolding p1_def 0 by (subst FormatBufferWriteChars_append) simp_all
  have 2: "p2 = ((chars ''RIFF'' @ uint32_bytes 0) @ replicate (20 + ?k) 0, 8)"
    unfolding p2_def 1 by (subst FormatBufferWriteNumber_append) (simp_all add: chars_def)
  have 3: "p3 = ((chars ''RIFF'' @ uint32_bytes 0 @ chars ''WAVE'') @ replicate (16 + ?k) 0, 12)"
    unfolding p3_def 2
    by (subst FormatBufferWriteChars_append) (simp_all add: chars_def uint32_bytes_length)
  have 4: "p4 = ((chars ''RIFF'' @ uint32_bytes 0 @ chars ''WAVE'' @ chars ''fmt '')
                   @ replicate (12 + ?k) 0, 16)"
    unfolding p4_def 3
    by (subst FormatBufferWriteChars_append) (simp_all add: chars_def uint32_bytes_length)
  have 5: "p5 = ((chars ''RIFF'' @ uint32_bytes 0 @ chars ''WAVE'' @ chars ''fmt ''
                    @ uint32_bytes (of_nat ?k)) @ replicate (8 + ?k) 0, 20)"
    unfolding p5_def 4 fc
    by (subst FormatBufferWriteNumber_append) (simp_all add: chars_def uint32_bytes_length)
  have 6: "p6 = ((chars ''RIFF'' @ uint32_bytes 0 @ chars ''WAVE'' @ chars ''fmt ''
                    @ uint32_bytes (of_nat ?k) @ ?fmt) @ replicate 8 0, 20 + ?k)"
    unfolding p6_def 5 fcu using mem
    by (subst FormatBufferWriteBytes_append) (simp_all add: chars_def uint32_bytes_length)
  have 7: "p7 = ((chars ''RIFF'' @ uint32_bytes 0 @ chars ''WAVE'' @ chars ''fmt ''
                    @ uint32_bytes (of_nat ?k) @ ?fmt @ chars ''data'') @ replicate 4 0, 24 + ?k)"
    unfolding p7_def 6 using mem
    by (subst FormatBufferWriteChars_append) (simp_all add: chars_def uint32_bytes_length)
  have 8: "p8 = (chars ''RIFF'' @ uint32_bytes 0 @ chars ''WAVE'' @ chars ''fmt ''
                    @ uint32_bytes (of_nat ?k) @ ?fmt @ chars ''data'' @ uint32_bytes 0, 28 + ?k)"
    unfolding p8_def 7 using mem
    by (subst FormatBufferWriteNumber_append) (simp_all add: chars_def uint32_bytes_length)
  have "UspWriteFormat_buffer szWF f = p8"
    unfolding UspWriteFormat_buffer_def Let_def p8_def p7_def p6_def p5_def p4_def p3_def
      p2_def p1_def p0_def ..
  then show ?thesis unfolding 8 H len .
qed

lemma byte_of_word: "unat (ucast (drop_bit k (w :: 32 word)) :: byte) = unat w div 2 ^ k mod 256"
  unfolding unsigned_ucast_eq unat_drop_bit_eq by (simp add: take_bit_eq_mod drop_bit_eq_div)

lemma base256_digits:
  fixes n :: nat
  shows "n = n mod 256 + 256 * (n div 256 mod 256) + 65536 * (n div 65536 mod 256)
             + 16777216 * (n div 16777216)"
proof -
  define a b c where "a = n div 256" and "b = a div 256" and "c = b div 256"
  have d: "n div 65536 = b" "n div 16777216 = c"
    by (simp_all add: a_def b_def c_def div_mult2_eq)
  have "n = n mod 256 + 256 * a" "a = a mod 256 + 256 * b" "b = b mod 256 + 256 * c"
    by (simp_all add: a_def b_def c_def)
  then show ?thesis unfolding d a_def[symmetric] by linarith
qed

lemma uint32_bytes_little_endian:
  assumes "uint32_bytes w = [b0, b1, b2, b3]"
  shows "unat w = unat b0 + 256 * unat b1 + 65536 * unat b2 + 16777216 * unat b3"
proof -
  have lt: "unat w < 4294967296" using unsigned_less[of w, where 'a=nat] by simp
  then have c: "unat w div 16777216 mod 256 = unat w div 16777216" by simp
  have b: "unat b0 = unat w mod 256" "unat b1 = unat w div 256 mod 256"
    "unat b2 = unat w div 65536 mod 256" "unat b3 = unat w div 16777216"
    using assms byte_of_word[of 0 w] byte_of_word[of 8 w] byte_of_word[of 16 w]
      byte_of_word[of 24 w] c
    by (auto simp: uint32_bytes_def)
  show ?thesis unfolding b by (rule base256_digits)
qed

lemma memcpy_nonempty: "dst \<noteq> [] \<Longrightarrow> 0 < off \<Longrightarrow> memcpy dst off src n \<noteq> []"
  by (cases dst; cases off) (simp_all add: memcpy_def)

lemma FormatBufferWrite_nonempty:
  assumes "fst p \<noteq> []" "0 < snd p"
  shows "fst (FormatBufferWriteChars p psz cch) \<noteq> [] \<and> 0 < snd (FormatBufferWriteChars p psz cch)"
    and "fst (FormatBufferWriteNumber p number) \<noteq> [] \<and> 0 < snd (FormatBufferWriteNumber p number)"
    and "fst (FormatBufferWriteBytes p source bytes) \<noteq> []
         \<and> 0 < snd (FormatBufferWriteBytes p source bytes)"
  using assms
  by (simp_all add: FormatBufferWriteChars_def FormatBufferWriteNumber_def
      FormatBufferWriteBytes_def memcpy_nonempty)

lemma header_nonempty: "fst (UspWriteFormat_buffer szWF f) \<noteq> []"
proof -
  define p1 where "p1 = FormatBufferWriteChars (replicate (cbHeader szWF f) 0, 0) ''RIFF'' 4"
  have 1: "fst p1 \<noteq> [] \<and> 0 < snd p1"
    by (simp add: p1_def FormatBufferWriteChars_def memcpy_def chars_def)
  have "fst (FormatBufferWriteNumber (FormatBufferWriteChars (FormatBufferWriteBytes
          (FormatBufferWriteNumber (FormatBufferWriteChars (FormatBufferWriteChars
            (FormatBufferWriteNumber p1 0) ''WAVE'' 4) ''fmt '' 4) (cbFormatChunk szWF f))
          (object_bytes f) (unat (cbFormatChunk szWF f))) ''data'' 4) 0) \<noteq> []"
    using 1 by (intro FormatBufferWrite_nonempty[THEN conjunct1]
        FormatBufferWrite_nonempty[THEN conjunct2] conjunct1[of "fst p1 \<noteq> []"]
        conjunct2[of _ "0 < snd p1"])
  then show ?thesis
    by (simp add: UspWriteFormat_buffer_def Let_def p1_def)
qed

lemma SetFormat_direct:
  assumes ok: "transport_ok wa" and valid: "IsUspHandleValid (m_handle s)"
    and direct: "\<not> m_fUseBufferedImplementation s \<or> m_servicePreferedBufferSize s = 0"
  shows "SetFormat szWF wa (Some f) s =
         Some (Inr ((handed (take (cbHeader szWF f) (fst (UspWriteFormat_buffer szWF f))) s)
           \<lparr>m_servicePreferedBufferSize :=
              ((unat (nSamplesPerSec f) * unat (nBlockAlign f)) mod 2 ^ 64
                 * m_servicePreferedMilliseconds s) mod 2 ^ 64 div 1000\<rparr>))"
proof -
  have "UspWrite_Actual wa (fst (UspWriteFormat_buffer szWF f)) (cbHeader szWF f) s
        = Inr (handed (take (cbHeader szWF f) (fst (UspWriteFormat_buffer szWF f))) s)"
    using header_nonempty[of szWF f] by (intro UspWrite_Actual_nonempty[OF ok]) blast
  then show ?thesis
    using valid direct by (simp add: SetFormat_def UspWriteFormat_def UspWrite_def handed_def)
qed


lemma valid_connected: "IsUspHandleValid (m_handle connected)"
  by (simp add: connected_def IsUspHandleValid_def INVALID_USP_HANDLE_def)

lemma header16000_eval: "UspWriteFormat_buffer 16 pcm16000 = (header16000, 44)"
proof -
  have "UspWriteFormat_buffer 16 pcm16000 = (header16000, cbHeader 16 pcm16000)"
    by (subst UspWriteFormat_buffer_eq)
       (simp_all add: pcm16000_def header16000_def uint32_bytes_def)
  then show ?thesis by (simp add: cbHeader_eq pcm16000_def)
qed

lemma header20_eval: "UspWriteFormat_buffer 16 pcm20 = (header20, 44)"
proof -
  have "UspWriteFormat_buffer 16 pcm20 = (header20, cbHeader 16 pcm20)"
    by (subst UspWriteFormat_buffer_eq) (simp_all add: pcm20_def header20_def uint32_bytes_def)
  then show ?thesis by (simp add: cbHeader_eq pcm20_def)
qed

lemma SetFormat_pcm16000:
  "SetFormat 16 usp_transport (Some pcm16000) connected = Some (Inr formatted16000)"
proof -
  have t: "take 44 header16000 = header16000" by (simp add: header16000_def chars_def)
  have h: "cbHeader 16 pcm16000 = 44" by (simp add: cbHeader_eq pcm16000_def)
  have c: "m_servicePreferedBufferSize connected = 0"
    "m_servicePreferedMilliseconds connected = 100"
    by (simp_all add: connected_def)
  show ?thesis
    using SetFormat_direct[OF transport_ok_usp_transport valid_connected, of 16 pcm16000]
    by (simp add: header16000_eval h formatted16000_def t c) (simp add: pcm16000_def)
qed

lemma SetFormat_pcm20:
  "SetFormat 16 usp_transport (Some pcm20) connected = Some (Inr formatted20)"
proof -
  have t: "take 44 header20 = header20" by (simp add: header20_def chars_def)
  have h: "cbHeader 16 pcm20 = 44" by (simp add: cbHeader_eq pcm20_def)
  have c: "m_servicePreferedBufferSize connected = 0"
    "m_servicePreferedMilliseconds connected = 100"
    by (simp_all add: connected_def)
  show ?thesis
    using SetFormat_direct[OF transport_ok_usp_transport valid_connected, of 16 pcm20]
    by (simp add: header20_eval h formatted20_def t c) (simp add: pcm20_def)
qed

lemma formatted16000_fields:
  "m_fUseBufferedImplementation formatted16000" "m_buffer formatted16000 = None"
  "m_servicePreferedBufferSize formatted16000 = 3200"
  "IsUspHandleValid (m_handle formatted16000)" "usp_sent formatted16000 = [header16000]"
  by (simp_all add: formatted16000_def handed_def connected_def IsUspHandleValid_def
      INVALID_USP_HANDLE_def)

lemma formatted20_fields:
  "m_fUseBufferedImplementation formatted20" "m_buffer formatted20 = None"
  "m_servicePreferedBufferSize formatted20 = 4"
  "IsUspHandleValid (m_handle formatted20)" "usp_sent formatted20 = [header20]"
  by (simp_all add: formatted20_def handed_def connected_def IsUspHandleValid_def
      INVALID_USP_HANDLE_def)

subsection \<open>Endpoint resolution\<close>

text \<open>
  Claim C4. Endpoint resolution depends on the property lookup only, and the first match
  wins: a non-empty value under the custom-model name gives the custom-model endpoint
  whatever the other properties are; otherwise an endpoint value equal to \<open>CORTANA\<close>
  without regard to case gives the legacy-agent endpoint; otherwise a non-empty endpoint
  value gives the custom-URL variant, and the URL used is that value unchanged; otherwise
  the default speech endpoint is chosen. Without any property the endpoint is the default
  speech endpoint and the recognition mode is interactive.
\<close>

theorem GetUspEndpointType_precedence:
  fixes properties :: named_properties
  defines "modelId \<equiv> GetStringValue properties ''CUSTOMSPEECH-modelId''"
    and "endpoint \<equiv> GetStringValue properties ''SPEECH-Endpoint''"
  shows "(modelId \<noteq> [] \<longrightarrow> GetUspEndpointType (Some properties) = Inr USP_ENDPOINT_CRIS)
    \<and> (modelId = [] \<and> wcsicmp endpoint ''CORTANA'' = 0 \<longrightarrow>
         GetUspEndpointType (Some properties) = Inr USP_ENDPOINT_CDSDK)
    \<and> (modelId = [] \<and> wcsicmp endpoint ''CORTANA'' \<noteq> 0 \<and> endpoint \<noteq> [] \<longrightarrow>
         GetUspEndpointType (Some properties) = Inr USP_ENDPOINT_UNKNOWN
         \<and> GetUspCustomEndpoint (Some properties) = Inr endpoint)
    \<and> (modelId = [] \<and> endpoint = [] \<longrightarrow>
         GetUspEndpointType (Some properties) = Inr USP_ENDPOINT_BING_SPEECH)
    \<and> GetUspEndpointType (Some Map.empty) = Inr USP_ENDPOINT_BING_SPEECH
    \<and> GetUspRecoMode (Some Map.empty) = Inr USP_RECO_MODE_INTERACTIVE"
  unfolding modelId_def endpoint_def
  by (simp add: GetUspEndpointType_def GetUspCustomEndpoint_def GetUspRecoMode_def
      GetStringValue_def wcsicmp_def towlower_def)

theorem GetUspEndpointType_precedence_witness:
  "GetUspEndpointType (Some props_both) = Inr USP_ENDPOINT_CRIS
   \<and> GetUspEndpointType (Some props_cortana) = Inr USP_ENDPOINT_CDSDK
   \<and> GetUspEndpointType (Some props_url) = Inr USP_ENDPOINT_UNKNOWN
   \<and> GetUspCustomEndpoint (Some props_url) = Inr ''wss://example.org/speech''
   \<and> GetUspEndpointType (Some Map.empty) = Inr USP_ENDPOINT_BING_SPEECH
   \<and> GetUspRecoMode (Some Map.empty) = Inr USP_RECO_MODE_INTERACTIVE"
  using GetUspEndpointType_precedence [of props_both]
    GetUspEndpointType_precedence [of props_cortana]
    GetUspEndpointType_precedence [of props_url]
  by (simp add: props_both_def props_cortana_def props_url_def GetStringValue_def
      wcsicmp_def towlower_def)

text \<open>
  Claim C10. The endpoint type and the model id are to be read under the same name, so
  that the custom-model endpoint is chosen exactly when a model id is set on the
  connection. The code reads \<open>CUSTOMSPEECH-modelId\<close> for the endpoint type and
  \<open>CUSTOMSPEECH-ModelId\<close> for the model id. With only the first name set, the
  custom-model endpoint is chosen and \<^verbatim>\<open>UspSetModelId\<close> is not called; with only the
  second set, the model id is set on a connection to the default speech endpoint.
\<close>

theorem GetUspModelId_key_mismatch:
  "GetUspEndpointType (Some props_modelId) = Inr USP_ENDPOINT_CRIS
   \<and> GetUspModelId (Some props_modelId) = Inr []
   \<and> map_sum fst usp_calls
        (UspInitialize usp_ok 1 (Some props_modelId) (CSpxUspRecoEngineAdapter True 100))
       = Inr [UspInit USP_ENDPOINT_CRIS USP_RECO_MODE_INTERACTIVE, UspConnect]
   \<and> GetUspEndpointType (Some props_ModelId) = Inr USP_ENDPOINT_BING_SPEECH
   \<and> GetUspModelId (Some props_ModelId) = Inr ''m1''
   \<and> map_sum fst usp_calls
        (UspInitialize usp_ok 1 (Some props_ModelId) (CSpxUspRecoEngineAdapter True 100))
       = Inr [UspInit USP_ENDPOINT_BING_SPEECH USP_RECO_MODE_INTERACTIVE,
              UspSetModelId ''m1'', UspConnect]"
  by (simp add: props_modelId_def props_ModelId_def UspInitialize_def
      CSpxUspRecoEngineAdapter_def query_def and_then_def call_def usp_ok_def
      SPX_FAILED_def GetUspEndpointType_def GetUspRecoMode_def GetUspAuthenticationData_def
      GetUspLanguage_def GetUspModelId_def GetStringValue_def wcsicmp_def)

subsection \<open>Failures of the transport\<close>

text \<open>
  Claim C7, as stated: whenever the transport reports a failure for a send of zero bytes,
  the write returns successfully. It fails: on a send of zero bytes that the transport
  answers with a code other than \<open>USP_WRITE_AUDIO_ERROR\<close>, the write throws that code.
\<close>

theorem UspWrite_Actual_zero_bytes_counterexample:
  "SPX_FAILED (usp_down (usp_sent connected) [])
   \<and> UspWrite_Actual usp_down [] 0 connected = Inl (SPXERR_OTHER 1, handed [] connected)"
  by (simp add: UspWrite_Actual_def usp_down_def SPX_FAILED_def handed_def DumpFileWrite_def)

text \<open>
  Claim C7, amended. Let \<open>hr\<close> be the answer of the transport to the block. If the length
  is zero and \<open>hr\<close> is \<open>USP_WRITE_AUDIO_ERROR\<close>, the write returns successfully. If \<open>hr\<close> is
  any other failure (the length is not zero, or the code is another one), the write throws
  \<open>hr\<close> to its caller. If \<open>hr\<close> is no failure, the write returns successfully. In each
  case the block has been handed to the transport and written to the dump file.
\<close>

theorem UspWrite_Actual_failure:
  fixes UspWriteAudio :: transport and s :: adapter and n :: nat and buffer :: "byte list"
  defines "hr \<equiv> UspWriteAudio (usp_sent s) (take n buffer)"
  shows "(n = 0 \<and> hr = USP_WRITE_AUDIO_ERROR \<longrightarrow>
            UspWrite_Actual UspWriteAudio buffer n s = Inr (handed [] s))
    \<and> (SPX_FAILED hr \<and> (n \<noteq> 0 \<or> hr \<noteq> USP_WRITE_AUDIO_ERROR) \<longrightarrow>
            UspWrite_Actual UspWriteAudio buffer n s = Inl (hr, handed (take n buffer) s))
    \<and> (\<not> SPX_FAILED hr \<longrightarrow>
            UspWrite_Actual UspWriteAudio buffer n s = Inr (handed (take n buffer) s))"
  unfolding hr_def
  by (auto simp: UspWrite_Actual_def SPX_FAILED_def handed_def DumpFileWrite_def Let_def)

theorem UspWrite_Actual_failure_witness:
  "UspWrite_Actual usp_transport [] 0 connected = Inr (handed [] connected)
   \<and> UspWrite_Actual usp_down [7, 8] 2 connected = Inl (SPXERR_OTHER 1, handed [7, 8] connected)
   \<and> UspWrite_Actual usp_down [] 0 connected = Inl (SPXERR_OTHER 1, handed [] connected)
   \<and> UspWrite_Actual usp_transport [7, 8] 2 connected = Inr (handed [7, 8] connected)"
  using UspWrite_Actual_failure [of 0 usp_transport connected "[]"]
    UspWrite_Actual_failure [of 2 usp_down connected "[7, 8]"]
    UspWrite_Actual_failure [of 0 usp_down connected "[]"]
    UspWrite_Actual_failure [of 2 usp_transport connected "[7, 8]"]
  by (simp add: usp_transport_def usp_down_def SPX_FAILED_def)

subsection \<open>Dispatch\<close>

text \<open>
  Claim C9, as stated: after a turn-end message has been dispatched, and after the adapter
  has been terminated, no inbound message makes a call on the sink. It fails: a hypothesis
  that arrives after the turn end reaches the sink behind the \<open>DoneProcessingAudio\<close> call,
  and a phrase that arrives after \<open>Term\<close> reaches the sink too.
\<close>

theorem deliver_after_turn_end_counterexample:
  "site_calls (deliver [UspMsgTurnEnd, UspMsgSpeechHypothesis 5 3 ''hi''] connected)
     = [DoneProcessingAudio, IntermediateRecoResult 5 ''hi'']
   \<and> map_sum fst m_handle (Term usp_ok connected) = Inr INVALID_USP_HANDLE
   \<and> map_sum fst (site_calls \<circ> callbacks (UspMsgSpeechPhrase 0 7 2 ''bye''))
        (Term usp_ok connected) = Inr [FinalRecoResult 7 ''bye'']"
  by (simp add: connected_def to_site_def UspOnTurnEnd_def UspOnSpeechHypothesis_def
      UspOnSpeechPhrase_def Term_def UspShutdown_def call_def and_then_def usp_ok_def
      SPX_FAILED_def DumpFileClose_def)

lemma callbacks_routing_table: "callbacks m s = to_site (routing_table m) s"
  by (cases m)
    (simp_all add: UspOnSpeechStartDetected_def UspOnSpeechEndDetected_def
      UspOnSpeechHypothesis_def UspOnSpeechFragment_def UspOnSpeechPhrase_def
      UspOnTurnStart_def UspOnTurnEnd_def UspOnError_def)

lemma Term_site_calls: "Term usp s = Inr s' \<Longrightarrow> site_calls s' = site_calls s"
  by (auto simp: Term_def UspShutdown_def call_def and_then_def DumpFileClose_def Let_def
      split: if_splits)

text \<open>
  Claim C9, amended. A turn-end message always makes the \<open>DoneProcessingAudio\<close> call
  (the StreamDone event). The dispatch keeps no record of a turn end or of termination:
  every inbound message, whatever was dispatched before and also after \<open>Term\<close> has
  returned, makes exactly the one call on the sink that the routing table gives, in the
  order of arrival, and changes nothing else in the adapter.
\<close>

theorem deliver_routing_table:
  "site_calls (callbacks UspMsgTurnEnd s) = site_calls s @ [DoneProcessingAudio]
   \<and> deliver ms s = s\<lparr>site_calls := site_calls s @ map routing_table ms\<rparr>
   \<and> (Term usp s = Inr s' \<longrightarrow>
        site_calls (deliver ms s') = site_calls s @ map routing_table ms)"
proof -
  have d: "deliver ms s = s\<lparr>site_calls := site_calls s @ map routing_table ms\<rparr>" for s
    by (induction ms arbitrary: s) (simp_all add: callbacks_routing_table to_site_def)
  show ?thesis
    using d Term_site_calls [of usp s s']
    by (simp add: callbacks_routing_table to_site_def)
qed

theorem deliver_routing_table_witness:
  "Term usp_ok connected = Inr (connected\<lparr>m_handle := INVALID_USP_HANDLE, m_hfile := None,
       usp_calls := usp_calls connected @ [UspClose 1]\<rparr>)
   \<and> site_calls (deliver [UspMsgTurnEnd, UspMsgTurnStart ''t'']
        (connected\<lparr>m_handle := INVALID_USP_HANDLE, m_hfile := None,
           usp_calls := usp_calls connected @ [UspClose 1]\<rparr>))
       = [DoneProcessingAudio, AdditionalMessage 0 ''t'']"
proof -
  have t: "Term usp_ok connected = Inr (connected\<lparr>m_handle := INVALID_USP_HANDLE,
       m_hfile := None, usp_calls := usp_calls connected @ [UspClose 1]\<rparr>)"
    by (simp add: connected_def Term_def UspShutdown_def call_def and_then_def usp_ok_def
        SPX_FAILED_def DumpFileClose_def)
  show ?thesis
    using t deliver_routing_table [of connected "[UspMsgTurnEnd, UspMsgTurnStart ''t'']" usp_ok
        "connected\<lparr>m_handle := INVALID_USP_HANDLE, m_hfile := None,
           usp_calls := usp_calls connected @ [UspClose 1]\<rparr>"]
    by (simp add: connected_def)
qed

subsection \<open>The buffered writer\<close>

text \<open>
  Claim C5. On the buffered path, with a transport that accepts the blocks and an empty
  accumulation buffer (not yet allocated, or allocated with the cursor at its start), a
  single write of exactly as many bytes as the buffer holds hands exactly one block to the
  transport, namely the bytes written, and no empty block besides; afterwards the buffer
  is empty: the remaining capacity is the whole capacity and the cursor is at the start.
\<close>

theorem UspWrite_exactly_capacity:
  assumes ok: "transport_ok wa"
    and buffered: "m_fUseBufferedImplementation s" "m_servicePreferedBufferSize s \<noteq> 0"
    and c: "0 < c" and len: "length data = c"
    and empty: "m_buffer s = None \<and> m_servicePreferedBufferSize s = c
         \<or> (\<exists>b. m_buffer s = Some b \<and> length b = c) \<and> m_bytesInBuffer s = c
             \<and> m_bytesLeftInBuffer s = c \<and> m_ptrIntoBuffer s = 0"
  shows "UspWrite wa data c s =
         Some (Inr ((handed data s)\<lparr>m_buffer := Some data, m_bytesInBuffer := c,
                      m_ptrIntoBuffer := 0, m_bytesLeftInBuffer := c\<rparr>))"
proof -
  from empty show ?thesis
  proof
    assume a: "m_buffer s = None \<and> m_servicePreferedBufferSize s = c"
    let ?s0 = "s\<lparr>m_buffer := Some (SpxAllocSharedUint8Buffer c), m_bytesInBuffer := c,
                  m_ptrIntoBuffer := 0, m_bytesLeftInBuffer := c\<rparr>"
    have "UspWrite wa data c s = UspWrite_Buffered_loop wa False data c ?s0"
      using a buffered c by (simp add: UspWrite_def UspWrite_Buffered_def)
    also have "\<dots> = Some (Inr ((handed data ?s0)\<lparr>m_buffer := Some data,
                      m_ptrIntoBuffer := 0, m_bytesLeftInBuffer := c\<rparr>))"
      by (rule write_capacity_loop[OF ok c len, of _ "SpxAllocSharedUint8Buffer c"])
         (simp_all add: SpxAllocSharedUint8Buffer_def)
    finally show ?thesis by (simp add: handed_def)
  next
    assume a: "(\<exists>b. m_buffer s = Some b \<and> length b = c) \<and> m_bytesInBuffer s = c
             \<and> m_bytesLeftInBuffer s = c \<and> m_ptrIntoBuffer s = 0"
    then obtain b where b: "m_buffer s = Some b" "length b = c" by blast
    have "UspWrite wa data c s = UspWrite_Buffered_loop wa False data c s"
      using b buffered c by (simp add: UspWrite_def UspWrite_Buffered_def)
    also have "\<dots> = Some (Inr ((handed data s)\<lparr>m_buffer := Some data,
                      m_ptrIntoBuffer := 0, m_bytesLeftInBuffer := c\<rparr>))"
      using a by (intro write_capacity_loop[OF ok c len b]) simp_all
    also have "(handed data s)\<lparr>m_buffer := Some data,
                      m_ptrIntoBuffer := 0, m_bytesLeftInBuffer := c\<rparr>
         = (handed data s)\<lparr>m_buffer := Some data, m_bytesInBuffer := c,
                      m_ptrIntoBuffer := 0, m_bytesLeftInBuffer := c\<rparr>"
      using a by (cases s) (simp add: handed_def)
    finally show ?thesis .
  qed
qed

theorem UspWrite_exactly_capacity_witness:
  "transport_ok usp_transport
   \<and> m_fUseBufferedImplementation formatted20
   \<and> m_servicePreferedBufferSize formatted20 = 4
   \<and> m_buffer formatted20 = None
   \<and> UspWrite usp_transport [1, 2, 3, 4] 4 formatted20 =
       Some (Inr (formatted20\<lparr>usp_sent := [header20, [1, 2, 3, 4]],
                    m_hfile := Some (header20 @ [1, 2, 3, 4]),
                    m_buffer := Some [1, 2, 3, 4], m_bytesInBuffer := 4,
                    m_ptrIntoBuffer := 0, m_bytesLeftInBuffer := 4\<rparr>))"
  using UspWrite_exactly_capacity [OF transport_ok_usp_transport, of formatted20 4 "[1, 2, 3, 4]"]
    transport_ok_usp_transport
  by (simp add: formatted20_fields) (simp add: formatted20_def handed_def connected_def)


text \<open>
  The sizes in the scenario of 16000 samples per second, block alignment 2 and a target of
  100 milliseconds, for any write of 5000 bytes after the first \<open>SetFormat\<close> of a
  connected adapter: the preferred buffer size is 3200, the write hands one block of 3200
  bytes to the transport and leaves 1800 bytes in the buffer, and a flush hands over the
  1800 bytes that the buffer holds. The buffer holds the first 3200 bytes of the write with
  the cursor at 1800, so these 1800 bytes are the first 1800 bytes of the write.
\<close>

lemma SetFormat_16000_2_counts:
  fixes wa :: transport and s :: adapter and f :: WAVEFORMATEX and data :: "byte list"
    and szWF :: nat
  defines "header \<equiv> take (cbHeader szWF f) (fst (UspWriteFormat_buffer szWF f))"
  defines "s1 \<equiv> (handed header s)\<lparr>m_servicePreferedBufferSize := 3200\<rparr>"
  defines "s2 \<equiv> (handed (take 3200 data) s1)\<lparr>m_buffer := Some (take 3200 data),
                   m_bytesInBuffer := 3200, m_ptrIntoBuffer := 1800,
                   m_bytesLeftInBuffer := 1400\<rparr>"
  assumes ok: "transport_ok wa" and valid: "IsUspHandleValid (m_handle s)"
    and buffered: "m_fUseBufferedImplementation s"
    and ms: "m_servicePreferedMilliseconds s = 100"
    and fresh: "m_servicePreferedBufferSize s = 0" "m_buffer s = None"
    and f: "nSamplesPerSec f = 16000" "nBlockAlign f = 2"
    and len: "length data = 5000"
  shows "SetFormat szWF wa (Some f) s = Some (Inr s1)
    \<and> m_servicePreferedBufferSize s1 = 16000 * 2 * 100 div 1000
    \<and> ProcessAudio wa data 5000 s1 = Some (Inr s2)
    \<and> usp_sent s2 = usp_sent s1 @ [take 3200 data]
    \<and> length (take 3200 data) = 3200
    \<and> m_bytesInBuffer s2 - m_bytesLeftInBuffer s2 = 1800
    \<and> UspWrite_Flush wa s2 =
        Some (Inr ((handed (take 1800 (buffer_get s2)) s2)
          \<lparr>m_buffer := None, m_bytesInBuffer := 0, m_ptrIntoBuffer := 0,
            m_bytesLeftInBuffer := 0\<rparr>))
    \<and> length (take 1800 (buffer_get s2)) = 1800"
proof -
  have a: "SetFormat szWF wa (Some f) s = Some (Inr s1)"
    using SetFormat_direct[OF ok valid, of szWF f] fresh f ms
    by (simp add: s1_def header_def)
  have p: "m_fUseBufferedImplementation s1" "m_buffer s1 = None"
    "m_servicePreferedBufferSize s1 = 3200"
    using buffered fresh by (simp_all add: s1_def handed_def)
  have "ProcessAudio wa data 5000 s1 =
        Some (Inr ((handed (take 3200 data) s1)\<lparr>m_buffer := Some (take 3200 data),
                      m_bytesInBuffer := 3200, m_ptrIntoBuffer := 5000 - 3200,
                      m_bytesLeftInBuffer := 3200 - (5000 - 3200)\<rparr>))"
    unfolding ProcessAudio_def
    by (rule UspWrite_unallocated_over[OF ok p _ _ len]) simp_all
  then have b: "ProcessAudio wa data 5000 s1 = Some (Inr s2)" by (simp add: s2_def)
  have g: "buffer_get s2 = take 3200 data" by (simp add: s2_def buffer_get_def)
  have c: "UspWrite_Flush wa s2 =
        Some (Inr ((handed (take 1800 (buffer_get s2)) s2)
          \<lparr>m_buffer := None, m_bytesInBuffer := 0, m_ptrIntoBuffer := 0,
            m_bytesLeftInBuffer := 0\<rparr>))"
    using UspWrite_Flush_ok[OF ok, of s2 "take 3200 data"] len unfolding g
    by (simp add: s2_def)
  show ?thesis
    using a b c len by (simp add: g) (simp add: s1_def s2_def handed_def)
qed

text \<open>
  Claim C2. After \<open>SetFormat\<close> with 16000 samples per second and block alignment 2 under
  the target of 100 milliseconds the capacity is to be 16000 * 2 * 100 / 1000 = 3200 bytes,
  a write of 5000 bytes is to cause one transmission of 3200 bytes and leave 1800 bytes
  retained, and a flush is to transmit those remaining 1800 bytes. The capacity and the
  sizes are as claimed, but the bytes are not: the second round of the loop of
  \<^verbatim>\<open>UspWrite_Buffered\<close> copies from the start of the caller's buffer again. For the
  write of 3200 bytes 1 followed by 1800 bytes 2, the transport is handed the header, the
  3200 bytes 1, and at the flush 1800 bytes 1 once more; the remaining 1800 bytes of the
  write, the bytes 2, are never sent.
\<close>

theorem SetFormat_16000_2_flush_repeats:
  "SetFormat 16 usp_transport (Some pcm16000) connected = Some (Inr formatted16000)
   \<and> m_servicePreferedBufferSize formatted16000 = 16000 * 2 * 100 div 1000
   \<and> length data5000 = 5000
   \<and> map_option (map_sum fst usp_sent)
        (ProcessAudio usp_transport data5000 5000 formatted16000)
       = Some (Inr [header16000, replicate 3200 1])
   \<and> map_option (map_sum fst m_bytesInBuffer)
        (ProcessAudio usp_transport data5000 5000 formatted16000) = Some (Inr 3200)
   \<and> map_option (map_sum fst m_bytesLeftInBuffer)
        (ProcessAudio usp_transport data5000 5000 formatted16000) = Some (Inr 1400)
   \<and> map_option (map_sum fst usp_sent)
        (next_call (ProcessAudio usp_transport data5000 5000 formatted16000)
           (SetFormat 16 usp_transport None))
       = Some (Inr [header16000, replicate 3200 1, replicate 1800 1])
   \<and> drop 3200 data5000 = replicate 1800 2"
proof -
  have l: "length data5000 = 5000" by (simp add: data5000_def)
  have t: "take 3200 data5000 = replicate 3200 1" by (simp add: data5000_def)
  have d: "drop 3200 data5000 = replicate 1800 2" by (simp add: data5000_def)
  define s2 where "s2 = (handed (take 3200 data5000) formatted16000)
      \<lparr>m_buffer := Some (take 3200 data5000), m_bytesInBuffer := 3200,
        m_ptrIntoBuffer := 5000 - 3200, m_bytesLeftInBuffer := 3200 - (5000 - 3200)\<rparr>"
  have w: "ProcessAudio usp_transport data5000 5000 formatted16000 = Some (Inr s2)"
    unfolding ProcessAudio_def s2_def
    by (rule UspWrite_unallocated_over[OF transport_ok_usp_transport
          formatted16000_fields(1,2,3) _ _ l]) simp_all
  have p: "IsUspHandleValid (m_handle s2)" "m_buffer s2 = Some (replicate 3200 1)"
    "m_bytesInBuffer s2 = 3200" "m_bytesLeftInBuffer s2 = 1400"
    "usp_sent s2 = [header16000, replicate 3200 1]"
    by (simp_all add: s2_def handed_def formatted16000_fields t)
  have fl: "SetFormat 16 usp_transport None s2 =
        Some (Inr ((handed (take (m_bytesInBuffer s2 - m_bytesLeftInBuffer s2)
              (replicate 3200 1)) s2)
           \<lparr>m_buffer := None, m_bytesInBuffer := 0, m_ptrIntoBuffer := 0,
             m_bytesLeftInBuffer := 0\<rparr>))"
    using UspWrite_Flush_ok[OF transport_ok_usp_transport p(2)] p(1,3,4)
    by (simp add: SetFormat_def)
  have 1: "map_option (map_sum fst usp_sent)
        (next_call (ProcessAudio usp_transport data5000 5000 formatted16000)
           (SetFormat 16 usp_transport None))
       = Some (Inr [header16000, replicate 3200 1, replicate 1800 1])"
    unfolding w next_call_def by (simp add: fl p handed_def)
  show ?thesis
    using 1 l d by (simp add: SetFormat_pcm16000 formatted16000_fields w p)
qed

subsection \<open>The stream header\<close>

text \<open>
  Claim C3. For every format descriptor whose \<^verbatim>\<open>sizeof(WAVEFORMAT) + cbSize\<close> bytes
  are there to be read, the header that \<^verbatim>\<open>UspWriteFormat\<close> prepares is exactly: the
  four characters RIFF, a size of four zero bytes, the four characters WAVE, the four
  characters \<open>fmt\<close> and a blank, four bytes that hold the byte length of the serialized
  descriptor least significant byte first, the serialized descriptor itself (the first
  \<^verbatim>\<open>sizeof(WAVEFORMAT) + cbSize\<close> bytes of the descriptor in memory), the four
  characters data, and four zero bytes. The header is a function of the descriptor alone.
  The pointer ends \<^verbatim>\<open>cbHeader\<close> bytes behind the start of the array, the array holds
  \<^verbatim>\<open>cbHeader\<close> bytes, and all of them are passed on to \<^verbatim>\<open>UspWrite\<close>.
\<close>

theorem UspWriteFormat_header_layout:
  fixes f :: WAVEFORMATEX and szWF :: nat
  defines "descriptor \<equiv> take (szWF + unat (cbSize f)) (object_bytes f)"
  defines "size_field \<equiv> uint32_bytes (of_nat (length descriptor))"
  assumes mem: "szWF + unat (cbSize f) \<le> length (object_bytes f)"
    and small: "szWF + unat (cbSize f) + 28 < 2 ^ 32"
  shows "fst (UspWriteFormat_buffer szWF f) =
           chars ''RIFF'' @ uint32_bytes 0 @ chars ''WAVE'' @ chars ''fmt ''
             @ size_field @ descriptor @ chars ''data'' @ uint32_bytes 0
    \<and> uint32_bytes 0 = [0, 0, 0, 0]
    \<and> length size_field = 4
    \<and> length descriptor = unat (size_field ! 0) + 256 * unat (size_field ! 1)
         + 65536 * unat (size_field ! 2) + 16777216 * unat (size_field ! 3)
    \<and> length descriptor = szWF + unat (cbSize f)
    \<and> snd (UspWriteFormat_buffer szWF f) = cbHeader szWF f
    \<and> length (fst (UspWriteFormat_buffer szWF f)) = cbHeader szWF f
    \<and> UspWriteFormat szWF wa f s =
        UspWrite wa (fst (UspWriteFormat_buffer szWF f))
          (length (fst (UspWriteFormat_buffer szWF f))) s"
proof -
  have len: "length descriptor = szWF + unat (cbSize f)"
    using mem by (simp add: descriptor_def)
  have eq: "UspWriteFormat_buffer szWF f =
          (chars ''RIFF'' @ uint32_bytes 0 @ chars ''WAVE'' @ chars ''fmt ''
            @ size_field @ descriptor @ chars ''data'' @ uint32_bytes 0, cbHeader szWF f)"
    unfolding size_field_def descriptor_def by (rule UspWriteFormat_buffer_eq[OF mem small])
  have l: "length (fst (UspWriteFormat_buffer szWF f)) = cbHeader szWF f"
    unfolding eq fst_conv
    by (simp add: cbHeader_eq[OF small] len chars_def uint32_bytes_length size_field_def)
  obtain b0 b1 b2 b3 where b: "size_field = [b0, b1, b2, b3]"
    by (simp add: size_field_def uint32_bytes_def)
  have u: "unat (of_nat (length descriptor) :: 32 word) = length descriptor"
    using small unfolding len unat_of_nat by simp
  have le: "length descriptor = unat (size_field ! 0) + 256 * unat (size_field ! 1)
         + 65536 * unat (size_field ! 2) + 16777216 * unat (size_field ! 3)"
    using uint32_bytes_little_endian[OF b[unfolded size_field_def]] unfolding u
    by (simp add: b)
  have z: "uint32_bytes 0 = [0, 0, 0, 0]" by (simp add: uint32_bytes_def)
  have 1: "fst (UspWriteFormat_buffer szWF f) =
           chars ''RIFF'' @ uint32_bytes 0 @ chars ''WAVE'' @ chars ''fmt ''
             @ size_field @ descriptor @ chars ''data'' @ uint32_bytes 0"
    and 2: "snd (UspWriteFormat_buffer szWF f) = cbHeader szWF f"
    unfolding eq by simp_all
  have 3: "length size_field = 4" by (simp add: b)
  have 4: "UspWriteFormat szWF wa f s =
        UspWrite wa (fst (UspWriteFormat_buffer szWF f))
          (length (fst (UspWriteFormat_buffer szWF f))) s"
    unfolding UspWriteFormat_def l ..
  show ?thesis by (intro conjI 1 z 3 le len 2 l 4)
qed

theorem UspWriteFormat_header_layout_witness:
  "16 + unat (cbSize pcm16000) \<le> length (object_bytes pcm16000)
   \<and> UspWriteFormat_buffer 16 pcm16000 =
       (chars ''RIFF'' @ [0, 0, 0, 0] @ chars ''WAVE'' @ chars ''fmt '' @ [16, 0, 0, 0]
          @ [1, 0, 1, 0, 128, 62, 0, 0, 0, 125, 0, 0, 2, 0, 16, 0]
          @ chars ''data'' @ [0, 0, 0, 0], 44)
   \<and> cbHeader 16 pcm16000 = 44"
proof -
  have h: "16 + unat (cbSize pcm16000) \<le> length (object_bytes pcm16000)"
    "16 + unat (cbSize pcm16000) + 28 < 2 ^ 32"
    by (simp_all add: pcm16000_def)
  have c: "cbHeader 16 pcm16000 = 44" by (simp add: cbHeader_eq pcm16000_def)
  have "fst (UspWriteFormat_buffer 16 pcm16000) =
       chars ''RIFF'' @ [0, 0, 0, 0] @ chars ''WAVE'' @ chars ''fmt '' @ [16, 0, 0, 0]
          @ [1, 0, 1, 0, 128, 62, 0, 0, 0, 125, 0, 0, 2, 0, 16, 0]
          @ chars ''data'' @ [0, 0, 0, 0]
       \<and> snd (UspWriteFormat_buffer 16 pcm16000) = 44"
    using UspWriteFormat_header_layout [OF h] unfolding c
    by (simp add: pcm16000_def uint32_bytes_def)
  then show ?thesis using h(1) c by (simp add: prod_eq_iff)
qed


subsection \<open>Writes of zero bytes\<close>

lemma buffered20_eval: "ProcessAudio usp_transport [1, 2] 2 formatted20 = Some (Inr buffered20)"
  unfolding ProcessAudio_def
  by (subst UspWrite_unallocated_fits[OF formatted20_fields(1,2,3)])
     (simp_all add: buffered20_def numeral_eq_Suc)

lemma buffered20_fields:
  "m_fUseBufferedImplementation buffered20" "m_buffer buffered20 = Some [1, 2, 0, 0]"
  "m_servicePreferedBufferSize buffered20 = 4" "m_bytesInBuffer buffered20 = 4"
  "m_bytesLeftInBuffer buffered20 = 2"
  "IsUspHandleValid (m_handle buffered20)" "usp_sent buffered20 = [header20]"
  by (simp_all add: buffered20_def formatted20_fields)

text \<open>
  Claim C6, as stated: a write of zero bytes that asks for no flush sends nothing and
  leaves the buffer, the cursor and the remaining capacity as they are. It fails: the
  writer has no flush flag apart from the length, and a write of zero bytes through
  \<^verbatim>\<open>ProcessAudio\<close> on a buffer that holds two bytes hands these two bytes to the
  transport and releases the buffer.
\<close>

theorem ProcessAudio_zero_bytes_counterexample:
  "ProcessAudio usp_transport [1, 2] 2 formatted20 = Some (Inr buffered20)
   \<and> usp_sent buffered20 = [header20]
   \<and> m_buffer buffered20 = Some [1, 2, 0, 0]
   \<and> m_bytesLeftInBuffer buffered20 = 2
   \<and> map_option (map_sum fst usp_sent) (ProcessAudio usp_transport [] 0 buffered20)
       = Some (Inr [header20, [1, 2]])
   \<and> map_option (map_sum fst m_buffer) (ProcessAudio usp_transport [] 0 buffered20)
       = Some (Inr None)
   \<and> map_option (map_sum fst m_bytesLeftInBuffer) (ProcessAudio usp_transport [] 0 buffered20)
       = Some (Inr 0)"
proof -
  have "ProcessAudio usp_transport [] 0 buffered20 =
         Some (Inr ((handed (take (m_bytesInBuffer buffered20 - m_bytesLeftInBuffer buffered20)
             [1, 2, 0, 0]) buffered20)
           \<lparr>m_buffer := None, m_bytesInBuffer := 0, m_ptrIntoBuffer := 0,
             m_bytesLeftInBuffer := 0\<rparr>))"
    unfolding ProcessAudio_def
    by (rule UspWrite_zero_bytes_buffered[OF transport_ok_usp_transport])
       (simp_all add: buffered20_fields)
  then show ?thesis
    by (simp add: buffered20_eval buffered20_fields handed_def)
qed

lemma loop_flush_unfold:
  "UspWrite_Buffered_loop wa True buffer 0 s =
     (case UspWrite_Actual wa (buffer_get s) (m_bytesInBuffer s - m_bytesLeftInBuffer s) s of
        Inl e \<Rightarrow> Some (Inl e)
      | Inr s1 \<Rightarrow> Some (Inr (s1\<lparr>m_buffer := None, m_bytesInBuffer := 0,
                               m_ptrIntoBuffer := 0, m_bytesLeftInBuffer := 0\<rparr>)))"
  by (subst UspWrite_Buffered_loop.simps) (simp split: sum.splits)

lemma loop_zero_bytes_buffer:
  "UspWrite_Buffered_loop wa True buffer 0 s = UspWrite_Buffered_loop wa True [] 0 s"
  by (simp only: loop_flush_unfold)

text \<open>
  Claim C6, amended. Every write of zero bytes is the flush sentinel; there is no flush
  flag apart from the length. With a transport that accepts the blocks: on the buffered
  path a write of zero bytes hands the filled part of the buffer to the transport as one
  block (an empty block when the buffer is not allocated) and releases the buffer; on the
  direct path it hands an empty block to the transport. A write of zero bytes to the
  buffered writer is the same as \<^verbatim>\<open>UspWrite_Flush\<close>.
\<close>

theorem UspWrite_zero_bytes:
  assumes ok: "transport_ok wa"
  shows "(m_fUseBufferedImplementation s \<and> m_servicePreferedBufferSize s \<noteq> 0
           \<and> m_buffer s = Some b \<and> m_bytesInBuffer s - m_bytesLeftInBuffer s \<le> length b \<longrightarrow>
          UspWrite wa buffer 0 s =
            Some (Inr ((handed (take (m_bytesInBuffer s - m_bytesLeftInBuffer s) b) s)
              \<lparr>m_buffer := None, m_bytesInBuffer := 0, m_ptrIntoBuffer := 0,
                m_bytesLeftInBuffer := 0\<rparr>)))
    \<and> (m_fUseBufferedImplementation s \<and> m_servicePreferedBufferSize s \<noteq> 0
           \<and> m_buffer s = None \<longrightarrow>
          UspWrite wa buffer 0 s =
            Some (Inr ((handed [] s)
              \<lparr>m_buffer := None, m_bytesInBuffer := 0, m_ptrIntoBuffer := 0,
                m_bytesLeftInBuffer := 0\<rparr>)))
    \<and> (\<not> m_fUseBufferedImplementation s \<or> m_servicePreferedBufferSize s = 0 \<longrightarrow>
          UspWrite wa buffer 0 s = Some (Inr (handed [] s)))
    \<and> UspWrite_Buffered wa buffer 0 s = UspWrite_Flush wa s"
proof -
  have 1: "UspWrite wa buffer 0 s =
            Some (Inr ((handed (take (m_bytesInBuffer s - m_bytesLeftInBuffer s) b) s)
              \<lparr>m_buffer := None, m_bytesInBuffer := 0, m_ptrIntoBuffer := 0,
                m_bytesLeftInBuffer := 0\<rparr>))"
    if "m_fUseBufferedImplementation s" "m_servicePreferedBufferSize s \<noteq> 0"
      "m_buffer s = Some b" "m_bytesInBuffer s - m_bytesLeftInBuffer s \<le> length b"
    using that by (intro UspWrite_zero_bytes_buffered[OF ok])
  have 2: "UspWrite wa buffer 0 s =
            Some (Inr ((handed [] s)
              \<lparr>m_buffer := None, m_bytesInBuffer := 0, m_ptrIntoBuffer := 0,
                m_bytesLeftInBuffer := 0\<rparr>))"
    if t: "m_fUseBufferedImplementation s" "m_servicePreferedBufferSize s \<noteq> 0" "m_buffer s = None"
  proof -
    let ?c = "m_servicePreferedBufferSize s"
    let ?s0 = "s\<lparr>m_buffer := Some (SpxAllocSharedUint8Buffer ?c), m_bytesInBuffer := ?c,
                  m_ptrIntoBuffer := 0, m_bytesLeftInBuffer := ?c\<rparr>"
    have "UspWrite wa buffer 0 s = UspWrite_Buffered_loop wa True buffer 0 ?s0"
      using t by (simp add: UspWrite_def UspWrite_Buffered_def)
    also have "\<dots> = Some (Inr ((handed (take (m_bytesInBuffer ?s0 - m_bytesLeftInBuffer ?s0)
            (buffer_get ?s0)) ?s0)
           \<lparr>m_buffer := None, m_bytesInBuffer := 0, m_ptrIntoBuffer := 0,
             m_bytesLeftInBuffer := 0\<rparr>))"
      by (rule loop_flush[OF ok]) simp
    finally show ?thesis by (simp add: handed_def)
  qed
  have 3: "UspWrite wa buffer 0 s = Some (Inr (handed [] s))"
    if "\<not> m_fUseBufferedImplementation s \<or> m_servicePreferedBufferSize s = 0"
    using that UspWrite_Actual_nonempty[OF ok, of 0 buffer s]
    by (simp add: UspWrite_def)
  have 4: "UspWrite_Buffered wa buffer 0 s = UspWrite_Flush wa s"
    by (simp add: UspWrite_Flush_def UspWrite_Buffered_def loop_zero_bytes_buffer[of wa buffer])
  show ?thesis using 1 2 3 4 by blast
qed

theorem UspWrite_zero_bytes_witness:
  "UspWrite usp_transport [] 0 buffered20 =
     Some (Inr (buffered20\<lparr>usp_sent := [header20, [1, 2]], m_hfile := Some (header20 @ [1, 2]),
        m_buffer := None, m_bytesInBuffer := 0, m_ptrIntoBuffer := 0, m_bytesLeftInBuffer := 0\<rparr>))
   \<and> UspWrite usp_transport [] 0 formatted20 =
     Some (Inr (formatted20\<lparr>usp_sent := [header20, []], m_bytesInBuffer := 0,
        m_ptrIntoBuffer := 0, m_bytesLeftInBuffer := 0\<rparr>))
   \<and> UspWrite usp_transport [] 0 connected = Some (Inr (connected\<lparr>usp_sent := [[]]\<rparr>))"
  using UspWrite_zero_bytes [OF transport_ok_usp_transport, of buffered20 "[1, 2, 0, 0]" "[]"]
    UspWrite_zero_bytes [OF transport_ok_usp_transport, of formatted20 "[]" "[]"]
    UspWrite_zero_bytes [OF transport_ok_usp_transport, of connected "[]" "[]"]
  by (simp add: buffered20_fields formatted20_fields)
     (simp add: buffered20_def formatted20_def handed_def connected_def)


subsection \<open>Byte order across writes\<close>

text \<open>
  Claim C1. The blocks handed to the transport, one after the other, are to be the bytes
  written, in their order, none repeated and none dropped. The loop of
  \<^verbatim>\<open>UspWrite_Buffered\<close> copies from the start of the caller's buffer in every round,
  so a write that does not fit into the rest of the accumulation buffer goes wrong: with
  a capacity of 4 bytes, the write of the six bytes 1 to 6 followed by a flush hands the
  blocks 1 2 3 4 and 1 2 to the transport behind the header; the bytes 5 and 6 are never
  sent, and the bytes 1 and 2 are sent twice.
\<close>

theorem UspWrite_Buffered_source_not_advanced:
  "map_option (map_sum fst usp_sent)
     (next_call (next_call (SetFormat 16 usp_transport (Some pcm20) connected)
        (ProcessAudio usp_transport [1, 2, 3, 4, 5, 6] 6))
        (SetFormat 16 usp_transport None))
   = Some (Inr [header20, [1, 2, 3, 4], [1, 2]])"
proof -
  define s2 where "s2 = (handed (take 4 [1, 2, 3, 4, 5, 6]) formatted20)
      \<lparr>m_buffer := Some (take 4 [1, 2, 3, 4, 5, 6]), m_bytesInBuffer := 4,
        m_ptrIntoBuffer := 6 - 4, m_bytesLeftInBuffer := 4 - (6 - 4)\<rparr>"
  have w: "ProcessAudio usp_transport [1, 2, 3, 4, 5, 6] 6 formatted20 = Some (Inr s2)"
    unfolding ProcessAudio_def s2_def
    by (rule UspWrite_unallocated_over[OF transport_ok_usp_transport formatted20_fields(1,2,3)])
       simp_all
  have p: "IsUspHandleValid (m_handle s2)" "m_buffer s2 = Some [1, 2, 3, 4]"
    "m_bytesInBuffer s2 - m_bytesLeftInBuffer s2 = 2" "usp_sent s2 = [header20, [1, 2, 3, 4]]"
    by (simp_all add: s2_def handed_def formatted20_fields)
  have fl: "SetFormat 16 usp_transport None s2 =
        Some (Inr ((handed (take (m_bytesInBuffer s2 - m_bytesLeftInBuffer s2) [1, 2, 3, 4]) s2)
           \<lparr>m_buffer := None, m_bytesInBuffer := 0, m_ptrIntoBuffer := 0,
             m_bytesLeftInBuffer := 0\<rparr>))"
    using UspWrite_Flush_ok[OF transport_ok_usp_transport p(2)] p(1,3)
    by (simp add: SetFormat_def)
  show ?thesis
    unfolding SetFormat_pcm20 next_call_def by (simp add: w fl p handed_def)
qed

subsection \<open>The header and the buffered writer\<close>

text \<open>
  Claim C8, as stated: the header of every \<^verbatim>\<open>SetFormat\<close> with a descriptor goes
  through the buffered writer, as the audio bytes after it do. It fails: at the first
  \<^verbatim>\<open>SetFormat\<close> of a connected adapter the header of 44 bytes is handed to the
  transport at once, as a block of its own, and no buffer is allocated, although the
  capacity is 3200 bytes afterwards; the same 44 bytes written through
  \<^verbatim>\<open>ProcessAudio\<close> afterwards are accumulated and nothing is sent.
\<close>

theorem SetFormat_header_direct_counterexample:
  "SetFormat 16 usp_transport (Some pcm16000) connected = Some (Inr formatted16000)
   \<and> usp_sent formatted16000 = [header16000]
   \<and> length header16000 = 44
   \<and> m_buffer formatted16000 = None
   \<and> m_servicePreferedBufferSize formatted16000 = 3200
   \<and> ProcessAudio usp_transport header16000 44 formatted16000 =
       Some (Inr (formatted16000\<lparr>m_buffer := Some (header16000 @ replicate 3156 0),
                    m_bytesInBuffer := 3200, m_ptrIntoBuffer := 44,
                    m_bytesLeftInBuffer := 3156\<rparr>))"
proof -
  have l: "length header16000 = 44" by (simp add: header16000_def chars_def)
  have "ProcessAudio usp_transport header16000 44 formatted16000 =
       Some (Inr (formatted16000\<lparr>m_buffer := Some (header16000 @ replicate (3200 - 44) 0),
                    m_bytesInBuffer := 3200, m_ptrIntoBuffer := 44,
                    m_bytesLeftInBuffer := 3200 - 44\<rparr>))"
    unfolding ProcessAudio_def
    by (rule UspWrite_unallocated_fits[OF formatted16000_fields(1,2,3) _ _ l]) simp_all
  then show ?thesis
    by (simp add: SetFormat_pcm16000 formatted16000_fields l)
qed

text \<open>
  Claim C8, amended. \<^verbatim>\<open>SetFormat\<close> with a descriptor passes the header to
  \<^verbatim>\<open>UspWrite\<close>, the entry that \<^verbatim>\<open>ProcessAudio\<close> uses, before it computes the
  preferred buffer size. So the header takes the path that the size set by an earlier
  \<^verbatim>\<open>SetFormat\<close> selects: when that size is zero (no format was set before) or
  buffering is off, the header is handed to the transport at once as one block; when
  buffering is on and that size is not zero, the header is written to the buffered writer,
  whose buffer has the earlier capacity if it is allocated by this write.
\<close>

theorem SetFormat_header_path:
  assumes ok: "transport_ok wa" and valid: "IsUspHandleValid (m_handle s)"
  shows "(\<not> m_fUseBufferedImplementation s \<or> m_servicePreferedBufferSize s = 0 \<longrightarrow>
           SetFormat szWF wa (Some f) s =
             Some (Inr ((handed (take (cbHeader szWF f) (fst (UspWriteFormat_buffer szWF f))) s)
               \<lparr>m_servicePreferedBufferSize :=
                  ((unat (nSamplesPerSec f) * unat (nBlockAlign f)) mod 2 ^ 64
                     * m_servicePreferedMilliseconds s) mod 2 ^ 64 div 1000\<rparr>)))
    \<and> (m_fUseBufferedImplementation s \<and> m_servicePreferedBufferSize s \<noteq> 0 \<longrightarrow>
           SetFormat szWF wa (Some f) s =
             next_call
               (UspWrite_Buffered wa (fst (UspWriteFormat_buffer szWF f)) (cbHeader szWF f) s)
               (\<lambda>s1. Some (Inr (s1\<lparr>m_servicePreferedBufferSize :=
                  ((unat (nSamplesPerSec f) * unat (nBlockAlign f)) mod 2 ^ 64
                     * m_servicePreferedMilliseconds s1) mod 2 ^ 64 div 1000\<rparr>))))"
  using SetFormat_direct[OF ok valid, of szWF f] valid
  by (auto simp: SetFormat_def UspWriteFormat_def UspWrite_def next_call_def
      split: option.splits sum.splits)

theorem SetFormat_header_path_witness:
  "SetFormat 16 usp_transport (Some pcm16000) connected = Some (Inr formatted16000)
   \<and> usp_sent formatted16000 = [header16000]
   \<and> SetFormat 16 usp_transport (Some pcm16000) formatted16000 =
       Some (Inr (formatted16000\<lparr>m_buffer := Some (header16000 @ replicate 3156 0),
                    m_bytesInBuffer := 3200, m_ptrIntoBuffer := 44,
                    m_bytesLeftInBuffer := 3156\<rparr>))"
proof -
  have l: "length header16000 = 44" by (simp add: header16000_def chars_def)
  have h: "cbHeader 16 pcm16000 = 44" by (simp add: cbHeader_eq pcm16000_def)
  have t: "take 44 header16000 = header16000" using l by simp
  have c: "m_servicePreferedBufferSize connected = 0"
    "m_servicePreferedMilliseconds connected = 100"
    by (simp_all add: connected_def)
  have m: "m_servicePreferedMilliseconds formatted16000 = 100"
    by (simp add: formatted16000_def handed_def connected_def)
  have b: "UspWrite_Buffered usp_transport header16000 44 formatted16000 =
       Some (Inr (formatted16000\<lparr>m_buffer := Some (header16000 @ replicate (3200 - 44) 0),
                    m_bytesInBuffer := 3200, m_ptrIntoBuffer := 44,
                    m_bytesLeftInBuffer := 3200 - 44\<rparr>))"
    using UspWrite_unallocated_fits[OF formatted16000_fields(1,2,3) _ _ l, of usp_transport]
    by (simp add: UspWrite_def formatted16000_fields)
  have 1: "SetFormat 16 usp_transport (Some pcm16000) connected = Some (Inr formatted16000)"
    using SetFormat_header_path [OF transport_ok_usp_transport valid_connected, of 16 pcm16000]
    by (simp add: c header16000_eval h t formatted16000_def) (simp add: pcm16000_def)
  have 2: "SetFormat 16 usp_transport (Some pcm16000) formatted16000 =
       Some (Inr (formatted16000\<lparr>m_buffer := Some (header16000 @ replicate 3156 0),
                    m_bytesInBuffer := 3200, m_ptrIntoBuffer := 44,
                    m_bytesLeftInBuffer := 3156\<rparr>))"
    using SetFormat_header_path [OF transport_ok_usp_transport formatted16000_fields(4),
        of 16 pcm16000]
    by (simp add: formatted16000_fields header16000_eval h b next_call_def m)
       (simp add: pcm16000_def formatted16000_def)
  show ?thesis using 1 2 by (simp add: formatted16000_fields)
qed


end
